theory Spec2Isabelle
  imports Main
begin

section \<open>Relational state (schema.sql)\<close>

text \<open>
  Every table is the list of its rows, in insertion order. Identifiers are integers.
  A column that references another table is nullable in schema.sql and is held as an
  \<open>int option\<close> (\<open>None\<close> is SQL NULL, which no \<open>=\<close> comparison matches).
  Amounts are DECIMAL(10,2) columns: they are held as an integer number of hundredths,
  and the arithmetic the handlers do on them (a price times an integer quantity, a sum)
  is exact on that representation. Timestamps are natural numbers; CURRENT_TIMESTAMP is
  the parameter \<open>now\<close> of each handler. Status columns are VARCHAR, as in the source.
  Only the columns that the modelled statements read or write are kept.

  Of the errors the database can raise, the model has the violations of the keys
  (primary, unique, foreign) and of the numeric and length ranges of schema.sql that the
  modelled statements can meet on their data; a request identifier outside the INTEGER
  range and a lost connection are not modelled.
\<close>

record restaurant_row =
  r_id :: int
  r_owner_id :: "int option"

record user_address_row =
  ua_id :: int
  ua_user_id :: "int option"

record menu_item_row =
  mi_id :: int
  mi_restaurant_id :: "int option"
  mi_name :: string
  mi_description :: "string option"
  mi_price :: int
  mi_is_available :: bool

record order_row =
  o_id :: int
  o_customer_id :: "int option"
  o_restaurant_id :: "int option"
  o_address_id :: "int option"
  o_status :: string
  o_total_amount :: int
  o_created_at :: nat
  o_updated_at :: nat

record order_item_row =
  oi_id :: int
  oi_order_id :: "int option"
  oi_menu_item_id :: "int option"
  oi_quantity :: int
  oi_unit_price :: int

record assignment_row =
  ca_id :: int
  ca_order_id :: "int option"
  ca_courier_id :: "int option"
  ca_assigned_at :: nat
  ca_picked_at :: "nat option"
  ca_delivered_at :: "nat option"
  ca_status :: string

record payment_row =
  p_id :: int
  p_order_id :: "int option"
  p_amount :: int
  p_payment_method :: string
  p_status :: string
  p_transaction_id :: "string option"
  p_created_at :: nat

text \<open>\<open>users\<close> keeps the id column; \<open>roles\<close> is (id, name); \<open>user_roles\<close> is
  (user_id, role_id).\<close>

record tables =
  users :: "int list"
  roles :: "(int \<times> string) list"
  user_roles :: "(int \<times> int) list"
  restaurants :: "restaurant_row list"
  user_addresses :: "user_address_row list"
  menu_items :: "menu_item_row list"
  orders :: "order_row list"
  order_items :: "order_item_row list"
  courier_assignments :: "assignment_row list"
  payments :: "payment_row list"

text \<open>The SERIAL sequences behind the id columns. A sequence holds the last value it
  gave out; PostgreSQL never rolls a sequence back.\<close>

record sequences =
  orders_id_seq :: int
  order_items_id_seq :: int
  courier_assignments_id_seq :: int
  payments_id_seq :: int

datatype stmt = Begin | Commit | Rollback | Select string | Insert string | Update string

text \<open>
  The database as one connection sees it: the committed tables, the working copy of an
  open transaction (\<open>txn\<close>, \<open>None\<close> outside a transaction, where every statement
  commits by itself), the sequences, and the statements sent so far.
\<close>

record server =
  committed :: tables
  txn :: "tables option"
  seqs :: sequences
  issued :: "stmt list"

datatype pg_error =
    UniqueViolation string
  | ForeignKeyViolation string
  | NumericOverflow
  | IntegerOutOfRange
  | StringTooLong

definition cur :: "server \<Rightarrow> tables" where
  "cur s = (case txn s of Some w \<Rightarrow> w | None \<Rightarrow> committed s)"

definition put :: "tables \<Rightarrow> server \<Rightarrow> server" where
  "put t s = (case txn s of Some w \<Rightarrow> s\<lparr>txn := Some t\<rparr> | None \<Rightarrow> s\<lparr>committed := t\<rparr>)"

definition sent :: "stmt \<Rightarrow> server \<Rightarrow> server" where
  "sent x s = s\<lparr>issued := issued s @ [x]\<rparr>"

definition sql_begin :: "server \<Rightarrow> server" where
  "sql_begin s =
     (case txn s of
        None \<Rightarrow> sent Begin (s\<lparr>txn := Some (committed s)\<rparr>)
      | Some w \<Rightarrow> sent Begin s)"

definition sql_commit :: "server \<Rightarrow> server" where
  "sql_commit s =
     (case txn s of
        None \<Rightarrow> sent Commit s
      | Some w \<Rightarrow> sent Commit (s\<lparr>committed := w, txn := None\<rparr>))"

definition sql_rollback :: "server \<Rightarrow> server" where
  "sql_rollback s = sent Rollback (s\<lparr>txn := None\<rparr>)"

text \<open>DECIMAL(10,2) holds absolute values below 10^8, that is below 10^10 hundredths;
  INTEGER is 32 bits wide.\<close>

definition fits_decimal_10_2 :: "int \<Rightarrow> bool" where
  "fits_decimal_10_2 c = (- 10000000000 < c \<and> c < 10000000000)"

definition fits_integer :: "int \<Rightarrow> bool" where
  "fits_integer n = (- 2147483648 \<le> n \<and> n \<le> 2147483647)"

section \<open>Requests and responses\<close>

text \<open>The authenticated identity that requireAuth puts on the request.\<close>

record auth_user =
  au_id :: int
  au_roles :: "string list"

text \<open>The JSON body of POST /orders/add at its declared schema; every property may be
  missing (\<open>None\<close>).\<close>

record item =
  menu_item_id :: "int option"
  quantity :: "int option"

record order_request =
  restaurant_id :: "int option"
  address_id :: "int option"
  items :: "item list option"
  payment_method :: "string option"

text \<open>What a handler can throw inside its try block: the two \<open>new Error(...)\<close> of the
  item loop, or an error of the database driver.\<close>

datatype exn =
    ItemInvalid
  | MenuItemNotFound int
  | Pg pg_error

text \<open>
  Response bodies. \<open>Error m\<close> is \<open>{error: m}\<close>, \<open>ErrorAllowed m xs\<close> is
  \<open>{error: m, allowed: xs}\<close>, \<open>ErrorThrown e\<close> is \<open>{error: e.message}\<close>,
  \<open>OrderCreated orderId totalAmount courierId status payment_status\<close> is the body of
  the 201 answer (its \<open>message\<close> is a constant), and the \<open>Row\<close> bodies are
  \<open>rows[0]\<close> of a RETURNING clause (\<open>NoRow\<close> when there is none).
\<close>

datatype body =
    Error string
  | ErrorAllowed string "string list"
  | ErrorThrown exn
  | OrderCreated int int int string string
  | OrderRow order_row
  | AssignmentRow assignment_row
  | MenuItemRow menu_item_row
  | NoRow

type_synonym response = "nat \<times> body"

definition truthy :: "int option \<Rightarrow> bool" where
  "truthy v = (case v of None \<Rightarrow> False | Some n \<Rightarrow> n \<noteq> 0)"

definition PAYMENT_METHODS :: "string list" where
  "PAYMENT_METHODS = [''CREDIT_CARD'', ''CASH'', ''WALLET'']"

definition isPaymentMethod :: "string option \<Rightarrow> bool" where
  "isPaymentMethod v = (case v of None \<Rightarrow> False | Some m \<Rightarrow> m \<in> set PAYMENT_METHODS)"

section \<open>Statements of POST /orders/add (orders.routes.ts)\<close>

text \<open>SELECT id FROM user_addresses WHERE id = $1 AND user_id = $2\<close>

definition select_address :: "int \<Rightarrow> int \<Rightarrow> server \<Rightarrow> int list \<times> server" where
  "select_address aid uid s =
     ([ua_id a. a \<leftarrow> user_addresses (cur s), ua_id a = aid \<and> ua_user_id a = Some uid],
      sent (Select ''user_addresses'') s)"

text \<open>INSERT INTO orders (customer_id, restaurant_id, address_id, status) VALUES
  ($1, $2, $3, 'CREATED') RETURNING id. The id comes from the sequence; the primary key
  and the three foreign keys are checked.\<close>

definition insert_order :: "int \<Rightarrow> int \<Rightarrow> int \<Rightarrow> nat \<Rightarrow> server \<Rightarrow> (pg_error + int) \<times> server" where
  "insert_order cust rid aid now s =
     (let oid = orders_id_seq (seqs s) + 1;
          s1 = sent (Insert ''orders'') (s\<lparr>seqs := (seqs s)\<lparr>orders_id_seq := oid\<rparr>\<rparr>);
          t = cur s1
      in if oid \<in> set (map o_id (orders t)) then (Inl (UniqueViolation ''orders_pkey''), s1)
         else if cust \<notin> set (users t) then (Inl (ForeignKeyViolation ''orders_customer_id_fkey''), s1)
         else if rid \<notin> set (map r_id (restaurants t))
           then (Inl (ForeignKeyViolation ''orders_restaurant_id_fkey''), s1)
         else if aid \<notin> set (map ua_id (user_addresses t))
           then (Inl (ForeignKeyViolation ''orders_address_id_fkey''), s1)
         else (Inr oid,
               put (t\<lparr>orders := orders t @
                     [\<lparr>o_id = oid, o_customer_id = Some cust, o_restaurant_id = Some rid,
                       o_address_id = Some aid, o_status = ''CREATED'', o_total_amount = 0,
                       o_created_at = now, o_updated_at = now\<rparr>]\<rparr>) s1))"

text \<open>SELECT price FROM menu_items WHERE id = $1 AND restaurant_id = $2\<close>

definition select_price :: "int \<Rightarrow> int \<Rightarrow> server \<Rightarrow> int list \<times> server" where
  "select_price mid rid s =
     ([mi_price m. m \<leftarrow> menu_items (cur s), mi_id m = mid \<and> mi_restaurant_id m = Some rid],
      sent (Select ''menu_items'') s)"

text \<open>INSERT INTO order_items (order_id, menu_item_id, quantity, unit_price) VALUES
  ($1, $2, $3, $4)\<close>

definition insert_order_item :: "int \<Rightarrow> int \<Rightarrow> int \<Rightarrow> int \<Rightarrow> server \<Rightarrow> (pg_error + unit) \<times> server" where
  "insert_order_item oid mid qty price s =
     (let iid = order_items_id_seq (seqs s) + 1;
          s1 = sent (Insert ''order_items'') (s\<lparr>seqs := (seqs s)\<lparr>order_items_id_seq := iid\<rparr>\<rparr>);
          t = cur s1
      in if \<not> fits_integer qty then (Inl IntegerOutOfRange, s1)
         else if iid \<in> set (map oi_id (order_items t))
           then (Inl (UniqueViolation ''order_items_pkey''), s1)
         else if oid \<notin> set (map o_id (orders t))
           then (Inl (ForeignKeyViolation ''order_items_order_id_fkey''), s1)
         else (Inr (),
               put (t\<lparr>order_items := order_items t @
                     [\<lparr>oi_id = iid, oi_order_id = Some oid, oi_menu_item_id = Some mid,
                       oi_quantity = qty, oi_unit_price = price\<rparr>]\<rparr>) s1))"

text \<open>The loop over \<open>items\<close> (lines 83 to 102), with the running \<open>totalAmount\<close>. A throw
  ends the loop with the state at the throw.\<close>

fun add_items :: "int \<Rightarrow> int \<Rightarrow> item list \<Rightarrow> int \<Rightarrow> server \<Rightarrow> (exn + int) \<times> server" where
  "add_items oid rid [] totalAmount s = (Inr totalAmount, s)"
| "add_items oid rid (it # its) totalAmount s =
     (if \<not> truthy (menu_item_id it) \<or> \<not> truthy (quantity it) \<or> the (quantity it) \<le> 0
      then (Inl ItemInvalid, s)
      else
        (case select_price (the (menu_item_id it)) rid s of
           ([], s1) \<Rightarrow> (Inl (MenuItemNotFound (the (menu_item_id it))), s1)
         | (unitPrice # _, s1) \<Rightarrow>
             (case insert_order_item oid (the (menu_item_id it)) (the (quantity it)) unitPrice s1 of
                (Inl e, s2) \<Rightarrow> (Inl (Pg e), s2)
              | (Inr _, s2) \<Rightarrow>
                  add_items oid rid its (totalAmount + unitPrice * the (quantity it)) s2)))"

text \<open>UPDATE orders SET total_amount = $1, status = 'DELIVERED', updated_at =
  CURRENT_TIMESTAMP WHERE id = $3\<close>

definition update_order_total :: "int \<Rightarrow> int \<Rightarrow> nat \<Rightarrow> server \<Rightarrow> (pg_error + unit) \<times> server" where
  "update_order_total totalAmount oid now s =
     (let s1 = sent (Update ''orders'') s; t = cur s1
      in if \<not> fits_decimal_10_2 totalAmount then (Inl NumericOverflow, s1)
         else (Inr (),
               put (t\<lparr>orders := map (\<lambda>row. if o_id row = oid
                       then row\<lparr>o_total_amount := totalAmount, o_status := ''DELIVERED'',
                                o_updated_at := now\<rparr>
                       else row) (orders t)\<rparr>) s1))"

text \<open>A courier is busy when a courier_assignments row of theirs is ASSIGNED or
  PICKED_UP (the NOT EXISTS subquery).\<close>

definition busy :: "tables \<Rightarrow> int \<Rightarrow> bool" where
  "busy t u = (\<exists>ca \<in> set (courier_assignments t).
      ca_courier_id ca = Some u \<and> ca_status ca \<in> set [''ASSIGNED'', ''PICKED_UP''])"

text \<open>SELECT u.id FROM users u JOIN user_roles ur ON ur.user_id = u.id JOIN roles r ON
  r.id = ur.role_id WHERE r.name = 'COURIER' AND NOT EXISTS (...) ORDER BY u.id ASC
  LIMIT 1\<close>

definition select_courier :: "server \<Rightarrow> int list \<times> server" where
  "select_courier s =
     (let t = cur s
      in (take 1 (sort [u. u \<leftarrow> users t, ur \<leftarrow> user_roles t, fst ur = u,
                          r \<leftarrow> roles t, fst r = snd ur, snd r = ''COURIER'', \<not> busy t u]),
          sent (Select ''users'') s))"

text \<open>The join and the WHERE clause of that query, as a condition on a user id.\<close>

definition courier_free :: "tables \<Rightarrow> int \<Rightarrow> bool" where
  "courier_free t u =
     (u \<in> set (users t)
      \<and> (\<exists>ur \<in> set (user_roles t). fst ur = u \<and>
            (\<exists>r \<in> set (roles t). fst r = snd ur \<and> snd r = ''COURIER''))
      \<and> \<not> busy t u)"

text \<open>INSERT INTO courier_assignments (order_id, courier_id, status, delivered_at)
  VALUES ($1, $2, 'DELIVERED', CURRENT_TIMESTAMP); order_id is UNIQUE.\<close>

definition insert_assignment :: "int \<Rightarrow> int \<Rightarrow> nat \<Rightarrow> server \<Rightarrow> (pg_error + unit) \<times> server" where
  "insert_assignment oid cid now s =
     (let aid = courier_assignments_id_seq (seqs s) + 1;
          s1 = sent (Insert ''courier_assignments'')
                 (s\<lparr>seqs := (seqs s)\<lparr>courier_assignments_id_seq := aid\<rparr>\<rparr>);
          t = cur s1
      in if aid \<in> set (map ca_id (courier_assignments t))
           then (Inl (UniqueViolation ''courier_assignments_pkey''), s1)
         else if Some oid \<in> set (map ca_order_id (courier_assignments t))
           then (Inl (UniqueViolation ''courier_assignments_order_id_key''), s1)
         else if oid \<notin> set (map o_id (orders t))
           then (Inl (ForeignKeyViolation ''courier_assignments_order_id_fkey''), s1)
         else if cid \<notin> set (users t)
           then (Inl (ForeignKeyViolation ''courier_assignments_courier_id_fkey''), s1)
         else (Inr (),
               put (t\<lparr>courier_assignments := courier_assignments t @
                     [\<lparr>ca_id = aid, ca_order_id = Some oid, ca_courier_id = Some cid,
                       ca_assigned_at = now, ca_picked_at = None, ca_delivered_at = Some now,
                       ca_status = ''DELIVERED''\<rparr>]\<rparr>) s1))"

text \<open>INSERT INTO payments (order_id, amount, payment_method, status) VALUES ($1, $2,
  $3, 'COMPLETED') ON CONFLICT (order_id) DO UPDATE SET amount = EXCLUDED.amount,
  payment_method = EXCLUDED.payment_method, status = 'COMPLETED' RETURNING *\<close>

definition upsert_payment :: "int \<Rightarrow> int \<Rightarrow> string \<Rightarrow> nat \<Rightarrow> server \<Rightarrow> (pg_error + unit) \<times> server" where
  "upsert_payment oid amount method now s =
     (let pid = payments_id_seq (seqs s) + 1;
          s1 = sent (Insert ''payments'') (s\<lparr>seqs := (seqs s)\<lparr>payments_id_seq := pid\<rparr>\<rparr>);
          t = cur s1
      in if \<not> fits_decimal_10_2 amount then (Inl NumericOverflow, s1)
         else if Some oid \<in> set (map p_order_id (payments t))
           then (Inr (),
                 put (t\<lparr>payments := map (\<lambda>p. if p_order_id p = Some oid
                         then p\<lparr>p_amount := amount, p_payment_method := method,
                                p_status := ''COMPLETED''\<rparr>
                         else p) (payments t)\<rparr>) s1)
         else if pid \<in> set (map p_id (payments t))
           then (Inl (UniqueViolation ''payments_pkey''), s1)
         else if oid \<notin> set (map o_id (orders t))
           then (Inl (ForeignKeyViolation ''payments_order_id_fkey''), s1)
         else (Inr (),
               put (t\<lparr>payments := payments t @
                     [\<lparr>p_id = pid, p_order_id = Some oid, p_amount = amount,
                       p_payment_method = method, p_status = ''COMPLETED'',
                       p_transaction_id = None, p_created_at = now\<rparr>]\<rparr>) s1))"

section \<open>POST /orders/add\<close>

text \<open>The route runs requireAuth and requireRole(['CUSTOMER']) before the handler; the
  handler is modelled from its first line, with the authenticated user as an argument.

  Lines 77 to 108: the order row, the line items, the total.\<close>

definition place_lines :: "int \<Rightarrow> int \<Rightarrow> int \<Rightarrow> item list \<Rightarrow> nat \<Rightarrow> server \<Rightarrow> (exn + int \<times> int) \<times> server" where
  "place_lines customerId rid aid its now s =
     (case insert_order customerId rid aid now s of
        (Inl e, s1) \<Rightarrow> (Inl (Pg e), s1)
      | (Inr orderId, s1) \<Rightarrow>
          (case add_items orderId rid its 0 s1 of
             (Inl e, s2) \<Rightarrow> (Inl e, s2)
           | (Inr totalAmount, s2) \<Rightarrow>
               (case update_order_total totalAmount orderId now s2 of
                  (Inl e, s3) \<Rightarrow> (Inl (Pg e), s3)
                | (Inr _, s3) \<Rightarrow> (Inr (orderId, totalAmount), s3))))"

text \<open>Lines 110 to 150: the courier, the assignment, the payment, COMMIT. \<open>Inr\<close> is a
  response the block returns, \<open>Inl\<close> an exception it lets through.\<close>

definition assign_and_pay :: "int \<Rightarrow> int \<Rightarrow> string \<Rightarrow> nat \<Rightarrow> server \<Rightarrow> (exn + response) \<times> server" where
  "assign_and_pay orderId totalAmount method now s =
     (case select_courier s of
        ([], s1) \<Rightarrow> (Inr (400, Error ''No courier available''), sql_rollback s1)
      | (courierId # _, s1) \<Rightarrow>
          (case insert_assignment orderId courierId now s1 of
             (Inl e, s2) \<Rightarrow> (Inl (Pg e), s2)
           | (Inr _, s2) \<Rightarrow>
               (case upsert_payment orderId totalAmount method now s2 of
                  (Inl e, s3) \<Rightarrow> (Inl (Pg e), s3)
                | (Inr _, s3) \<Rightarrow>
                    (Inr (201, OrderCreated orderId totalAmount courierId
                                 ''DELIVERED'' ''COMPLETED''),
                     sql_commit s3))))"

text \<open>The body of the try block, after BEGIN (lines 67 to 150).\<close>

definition order_txn :: "int \<Rightarrow> int \<Rightarrow> int \<Rightarrow> item list \<Rightarrow> string \<Rightarrow> nat \<Rightarrow> server \<Rightarrow> (exn + response) \<times> server" where
  "order_txn customerId rid aid its method now s =
     (case select_address aid customerId s of
        ([], s1) \<Rightarrow>
          (Inr (400, Error ''Invalid address_id (not found or not yours)''), sql_rollback s1)
      | (_ # _, s1) \<Rightarrow>
          (case place_lines customerId rid aid its now s1 of
             (Inl e, s2) \<Rightarrow> (Inl e, s2)
           | (Inr (orderId, totalAmount), s2) \<Rightarrow>
               assign_and_pay orderId totalAmount method now s2))"

text \<open>The handler: validation (lines 55 to 61), BEGIN, the try block, and the catch
  clause, which sends ROLLBACK and answers 400 with the exception's message.\<close>

definition post_add :: "server \<Rightarrow> auth_user \<Rightarrow> order_request \<Rightarrow> nat \<Rightarrow> response \<times> server" where
  "post_add s user req now =
     (if \<not> truthy (restaurant_id req) \<or> \<not> truthy (address_id req) \<or> items req = None
         \<or> length (the (items req)) = 0
      then ((400, Error ''Missing order details''), s)
      else if \<not> isPaymentMethod (payment_method req)
      then ((400, ErrorAllowed ''Invalid payment_method'' PAYMENT_METHODS), s)
      else
        (case order_txn (au_id user) (the (restaurant_id req)) (the (address_id req))
                (the (items req)) (the (payment_method req)) now (sql_begin s) of
           (Inl e, s1) \<Rightarrow> ((400, ErrorThrown e), sql_rollback s1)
         | (Inr resp, s1) \<Rightarrow> (resp, s1)))"

section \<open>PUT /orders/:id/cancel\<close>

text \<open>The handlers below use \<open>query\<close> of db.ts, which runs one statement on a pooled
  connection with no transaction around it. The path parameter is taken as an integer.
  The catch clause of this handler and of the assignment handler answers 500 on an error
  of the driver; the statements they send raise none in this model.

  SELECT id, status FROM orders WHERE id = $1 AND customer_id = $2\<close>

definition select_own_order :: "int \<Rightarrow> int \<Rightarrow> server \<Rightarrow> (int \<times> string) list \<times> server" where
  "select_own_order oid uid s =
     ([(o_id row, o_status row). row \<leftarrow> orders (cur s),
         o_id row = oid \<and> o_customer_id row = Some uid],
      sent (Select ''orders'') s)"

text \<open>UPDATE orders SET status = 'CANCELLED', updated_at = CURRENT_TIMESTAMP WHERE id = $2
  AND customer_id = $3 RETURNING *\<close>

definition update_order_cancelled :: "int \<Rightarrow> int \<Rightarrow> nat \<Rightarrow> server \<Rightarrow> order_row list \<times> server" where
  "update_order_cancelled oid uid now s =
     (let s1 = sent (Update ''orders'') s; t = cur s1;
          hit = (\<lambda>row. o_id row = oid \<and> o_customer_id row = Some uid);
          upd = (\<lambda>row. row\<lparr>o_status := ''CANCELLED'', o_updated_at := now\<rparr>)
      in (map upd (filter hit (orders t)),
          put (t\<lparr>orders := map (\<lambda>row. if hit row then upd row else row) (orders t)\<rparr>) s1))"

definition put_cancel :: "server \<Rightarrow> auth_user \<Rightarrow> int \<Rightarrow> nat \<Rightarrow> response \<times> server" where
  "put_cancel s user orderId now =
     (case select_own_order orderId (au_id user) s of
        ([], s1) \<Rightarrow> ((404, Error ''Order not found''), s1)
      | ((_, status) # _, s1) \<Rightarrow>
          if status = ''DELIVERED'' then ((400, Error ''Cannot cancel delivered order''), s1)
          else
            (case update_order_cancelled orderId (au_id user) now s1 of
               ([], s2) \<Rightarrow> ((200, NoRow), s2)
             | (row # _, s2) \<Rightarrow> ((200, OrderRow row), s2)))"

section \<open>PUT /courier/assignments/:id/update-status (courier.routes.ts, unnamed/part_002)\<close>

definition COURIER_ASSIGNMENT_STATUSES :: "string list" where
  "COURIER_ASSIGNMENT_STATUSES = [''ASSIGNED'', ''PICKED_UP'', ''DELIVERED'']"

definition isCourierAssignmentStatus :: "string option \<Rightarrow> bool" where
  "isCourierAssignmentStatus v =
     (case v of None \<Rightarrow> False | Some x \<Rightarrow> x \<in> set COURIER_ASSIGNMENT_STATUSES)"

text \<open>The SET clause that \<open>updateFields\<close> builds (lines 193 to 199).\<close>

definition updateFields :: "string \<Rightarrow> nat \<Rightarrow> assignment_row \<Rightarrow> assignment_row" where
  "updateFields status now ca =
     (if status = ''PICKED_UP'' then ca\<lparr>ca_status := status, ca_picked_at := Some now\<rparr>
      else if status = ''DELIVERED'' then ca\<lparr>ca_status := status, ca_delivered_at := Some now\<rparr>
      else ca\<lparr>ca_status := status\<rparr>)"

text \<open>UPDATE courier_assignments SET ... WHERE id = $2 [AND courier_id = $3] RETURNING *;
  \<open>owner = None\<close> is the administrator's statement, without the courier_id condition.\<close>

definition update_assignment :: "string \<Rightarrow> int \<Rightarrow> int option \<Rightarrow> nat \<Rightarrow> server \<Rightarrow> assignment_row list \<times> server" where
  "update_assignment status aid owner now s =
     (let s1 = sent (Update ''courier_assignments'') s; t = cur s1;
          hit = (\<lambda>ca. ca_id ca = aid \<and>
                   (case owner of None \<Rightarrow> True | Some u \<Rightarrow> ca_courier_id ca = Some u))
      in (map (updateFields status now) (filter hit (courier_assignments t)),
          put (t\<lparr>courier_assignments :=
                 map (\<lambda>ca. if hit ca then updateFields status now ca else ca)
                   (courier_assignments t)\<rparr>) s1))"

text \<open>UPDATE orders SET status = $1 WHERE id = $2, where $2 is the order_id column of the
  updated assignment (NULL matches no order).\<close>

definition update_order_status :: "string \<Rightarrow> int option \<Rightarrow> server \<Rightarrow> server" where
  "update_order_status status oid s =
     (let s1 = sent (Update ''orders'') s; t = cur s1
      in put (t\<lparr>orders := map (\<lambda>row. if Some (o_id row) = oid
                  then row\<lparr>o_status := status\<rparr> else row) (orders t)\<rparr>) s1)"

definition put_assignment_update_status ::
    "server \<Rightarrow> auth_user \<Rightarrow> int \<Rightarrow> string option \<Rightarrow> nat \<Rightarrow> response \<times> server" where
  "put_assignment_update_status s user assignmentId status now =
     (if \<not> isCourierAssignmentStatus status
      then ((400, ErrorAllowed ''Invalid status'' COURIER_ASSIGNMENT_STATUSES), s)
      else
        (case (if ''ADMIN'' \<in> set (au_roles user)
               then update_assignment (the status) assignmentId None now s
               else update_assignment (the status) assignmentId (Some (au_id user)) now s) of
           ([], s1) \<Rightarrow> ((404, Error ''Assignment not found or not yours''), s1)
         | (row # _, s1) \<Rightarrow>
             if the status = ''DELIVERED''
             then ((200, AssignmentRow row), update_order_status ''DELIVERED'' (ca_order_id row) s1)
             else if the status = ''PICKED_UP''
             then ((200, AssignmentRow row), update_order_status ''PICKED_UP'' (ca_order_id row) s1)
             else ((200, AssignmentRow row), s1)))"

section \<open>PUT /menu/menu-items/:menuItemId/update (menu.routes.ts, unnamed/part_001)\<close>

record menu_item_update =
  miu_name :: "string option"
  miu_description :: "string option"
  miu_price :: "int option"
  miu_is_available :: "bool option"

text \<open>SELECT r.owner_id FROM menu_items mi JOIN restaurants r ON r.id = mi.restaurant_id
  WHERE mi.id = $1\<close>

definition select_item_owner :: "int \<Rightarrow> server \<Rightarrow> int option list \<times> server" where
  "select_item_owner mid s =
     ([r_owner_id r. m \<leftarrow> menu_items (cur s), mi_id m = mid,
         r \<leftarrow> restaurants (cur s), Some (r_id r) = mi_restaurant_id m],
      sent (Select ''menu_items'') s)"

definition coalesce :: "'a option \<Rightarrow> 'a \<Rightarrow> 'a" where
  "coalesce v d = (case v of None \<Rightarrow> d | Some x \<Rightarrow> x)"

text \<open>UPDATE menu_items SET name = COALESCE($1, name), description = COALESCE($2,
  description), price = COALESCE($3, price), is_available = COALESCE($4, is_available)
  WHERE id = $5 RETURNING *; name is VARCHAR(100), price DECIMAL(10,2).\<close>

definition update_menu_item :: "menu_item_update \<Rightarrow> int \<Rightarrow> server \<Rightarrow> (pg_error + menu_item_row list) \<times> server" where
  "update_menu_item b mid s =
     (let s1 = sent (Update ''menu_items'') s; t = cur s1;
          upd = (\<lambda>m. m\<lparr>mi_name := coalesce (miu_name b) (mi_name m),
                        mi_description := (case miu_description b of
                                             None \<Rightarrow> mi_description m | Some d \<Rightarrow> Some d),
                        mi_price := coalesce (miu_price b) (mi_price m),
                        mi_is_available := coalesce (miu_is_available b) (mi_is_available m)\<rparr>)
      in if \<not> fits_decimal_10_2 (coalesce (miu_price b) 0) then (Inl NumericOverflow, s1)
         else if 100 < length (coalesce (miu_name b) []) then (Inl StringTooLong, s1)
         else (Inr (map upd (filter (\<lambda>m. mi_id m = mid) (menu_items t))),
               put (t\<lparr>menu_items := map (\<lambda>m. if mi_id m = mid then upd m else m)
                                      (menu_items t)\<rparr>) s1))"

definition put_menu_item_update ::
    "server \<Rightarrow> auth_user \<Rightarrow> int \<Rightarrow> menu_item_update \<Rightarrow> response \<times> server" where
  "put_menu_item_update s user menuItemId b =
     (case select_item_owner menuItemId s of
        ([], s1) \<Rightarrow> ((404, Error ''Menu item not found''), s1)
      | (owner_id # _, s1) \<Rightarrow>
          if owner_id \<noteq> Some (au_id user) \<and> ''ADMIN'' \<notin> set (au_roles user)
          then ((403, Error ''Forbidden''), s1)
          else
            (case update_menu_item b menuItemId s1 of
               (Inl e, s2) \<Rightarrow> ((500, Error ''Internal server error''), s2)
             | (Inr [], s2) \<Rightarrow> ((200, NoRow), s2)
             | (Inr (row # _), s2) \<Rightarrow> ((200, MenuItemRow row), s2)))"

section \<open>Example data\<close>

text \<open>The scenario of the specification: customer 1 with address 7, restaurant 3 with
  item 11 at 10.00 and item 12 at 5.00, one courier (user 9); restaurant 4 has item 13.\<close>

definition ex_tables :: tables where
  "ex_tables =
     \<lparr>users = [1, 2, 9],
      roles = [(1, ''CUSTOMER''), (2, ''COURIER''), (3, ''ADMIN'')],
      user_roles = [(1, 1), (2, 1), (9, 2)],
      restaurants = [\<lparr>r_id = 3, r_owner_id = Some 2\<rparr>, \<lparr>r_id = 4, r_owner_id = None\<rparr>],
      user_addresses = [\<lparr>ua_id = 7, ua_user_id = Some 1\<rparr>, \<lparr>ua_id = 8, ua_user_id = Some 2\<rparr>],
      menu_items =
        [\<lparr>mi_id = 11, mi_restaurant_id = Some 3, mi_name = ''A'', mi_description = None,
          mi_price = 1000, mi_is_available = True\<rparr>,
         \<lparr>mi_id = 12, mi_restaurant_id = Some 3, mi_name = ''B'', mi_description = None,
          mi_price = 500, mi_is_available = True\<rparr>,
         \<lparr>mi_id = 13, mi_restaurant_id = Some 4, mi_name = ''C'', mi_description = None,
          mi_price = 700, mi_is_available = True\<rparr>],
      orders = [], order_items = [], courier_assignments = [], payments = []\<rparr>"

definition ex_server :: server where
  "ex_server =
     \<lparr>committed = ex_tables, txn = None,
      seqs = \<lparr>orders_id_seq = 0, order_items_id_seq = 0, courier_assignments_id_seq = 0,
              payments_id_seq = 0\<rparr>,
      issued = []\<rparr>"

definition ex_customer :: auth_user where
  "ex_customer = \<lparr>au_id = 1, au_roles = [''CUSTOMER'']\<rparr>"

definition ex_request :: order_request where
  "ex_request =
     \<lparr>restaurant_id = Some 3, address_id = Some 7,
      items = Some [\<lparr>menu_item_id = Some 11, quantity = Some 2\<rparr>,
                    \<lparr>menu_item_id = Some 12, quantity = Some 1\<rparr>],
      payment_method = Some ''CASH''\<rparr>"

text \<open>The same request with item 13, which belongs to restaurant 4; and the same
  database with no user in the COURIER role.\<close>

definition ex_request_cross :: order_request where
  "ex_request_cross =
     ex_request\<lparr>items := Some [\<lparr>menu_item_id = Some 11, quantity = Some 2\<rparr>,
                              \<lparr>menu_item_id = Some 13, quantity = Some 1\<rparr>]\<rparr>"


text \<open>The state after the example request, placed at time 5.\<close>

definition ex_tables_after :: tables where
  "ex_tables_after = ex_tables\<lparr>
      orders := [\<lparr>o_id = 1, o_customer_id = Some 1, o_restaurant_id = Some 3,
                  o_address_id = Some 7, o_status = ''DELIVERED'', o_total_amount = 2500,
                  o_created_at = 5, o_updated_at = 5\<rparr>],
      order_items := [\<lparr>oi_id = 1, oi_order_id = Some 1, oi_menu_item_id = Some 11,
                       oi_quantity = 2, oi_unit_price = 1000\<rparr>,
                      \<lparr>oi_id = 2, oi_order_id = Some 1, oi_menu_item_id = Some 12,
                       oi_quantity = 1, oi_unit_price = 500\<rparr>],
      courier_assignments := [\<lparr>ca_id = 1, ca_order_id = Some 1, ca_courier_id = Some 9,
                               ca_assigned_at = 5, ca_picked_at = None,
                               ca_delivered_at = Some 5, ca_status = ''DELIVERED''\<rparr>],
      payments := [\<lparr>p_id = 1, p_order_id = Some 1, p_amount = 2500,
                    p_payment_method = ''CASH'', p_status = ''COMPLETED'',
                    p_transaction_id = None, p_created_at = 5\<rparr>]\<rparr>"

definition ex_server_after :: server where
  "ex_server_after =
     \<lparr>committed = ex_tables_after, txn = None,
      seqs = \<lparr>orders_id_seq = 1, order_items_id_seq = 2, courier_assignments_id_seq = 1,
              payments_id_seq = 1\<rparr>,
      issued = [Begin, Select ''user_addresses'', Insert ''orders'',
                Select ''menu_items'', Insert ''order_items'',
                Select ''menu_items'', Insert ''order_items'', Update ''orders'',
                Select ''users'', Insert ''courier_assignments'', Insert ''payments'', Commit]\<rparr>"

text \<open>The same state with the order cancelled instead.\<close>

definition ex_server_cancelled :: server where
  "ex_server_cancelled =
     ex_server_after\<lparr>committed := ex_tables_after\<lparr>orders :=
        [\<lparr>o_id = 1, o_customer_id = Some 1, o_restaurant_id = Some 3,
          o_address_id = Some 7, o_status = ''CANCELLED'', o_total_amount = 2500,
          o_created_at = 5, o_updated_at = 6\<rparr>]\<rparr>\<rparr>"

text \<open>The courier of the example, and the example order while it is READY with its
  assignment ASSIGNED.\<close>

definition ex_courier :: auth_user where
  "ex_courier = \<lparr>au_id = 9, au_roles = [''COURIER'']\<rparr>"

definition ex_server_assigned :: server where
  "ex_server_assigned =
     ex_server_after\<lparr>committed := ex_tables_after\<lparr>
        orders := [\<lparr>o_id = 1, o_customer_id = Some 1, o_restaurant_id = Some 3,
                    o_address_id = Some 7, o_status = ''READY'', o_total_amount = 2500,
                    o_created_at = 5, o_updated_at = 5\<rparr>],
        courier_assignments := [\<lparr>ca_id = 1, ca_order_id = Some 1, ca_courier_id = Some 9,
                                 ca_assigned_at = 5, ca_picked_at = None,
                                 ca_delivered_at = None, ca_status = ''ASSIGNED''\<rparr>]\<rparr>,
        issued := []\<rparr>"

text \<open>The owner of restaurant 3, and a body that changes a price to 12.00.\<close>

definition ex_owner :: auth_user where
  "ex_owner = \<lparr>au_id = 2, au_roles = [''RESTAURANT'']\<rparr>"

definition ex_price_update :: menu_item_update where
  "ex_price_update =
     \<lparr>miu_name = None, miu_description = None, miu_price = Some 1200, miu_is_available = None\<rparr>"

section \<open>Transactions and statements\<close>

lemma cur_sent [simp]: "cur (sent x s) = cur s"
  by (simp add: cur_def sent_def split: option.splits)

lemma txn_sent [simp]: "txn (sent x s) = txn s"
  by (simp add: sent_def)

lemma committed_sent [simp]: "committed (sent x s) = committed s"
  by (simp add: sent_def)

lemma issued_sent [simp]: "issued (sent x s) = issued s @ [x]"
  by (simp add: sent_def)

lemma cur_put [simp]: "cur (put t s) = t"
  by (simp add: cur_def put_def split: option.splits)

lemma txn_put_None [simp]: "(txn (put t s) = None) = (txn s = None)"
  by (simp add: put_def split: option.splits)

lemma txn_put_Some [simp]: "txn s = Some w \<Longrightarrow> txn (put t s) = Some t"
  by (simp add: put_def)

lemma committed_put_open: "txn s \<noteq> None \<Longrightarrow> committed (put t s) = committed s"
  by (auto simp: put_def split: option.splits)

lemma committed_put_auto: "txn s = None \<Longrightarrow> committed (put t s) = t"
  by (simp add: put_def)

lemma issued_put [simp]: "issued (put t s) = issued s"
  by (simp add: put_def split: option.splits)

lemma cur_seqs [simp]: "cur (s\<lparr>seqs := q\<rparr>) = cur s"
  by (simp add: cur_def split: option.splits)

lemma cur_None: "txn s = None \<Longrightarrow> cur s = committed s"
  by (simp add: cur_def split: option.splits)

lemma begin_props:
  "txn s = None \<Longrightarrow> txn (sql_begin s) \<noteq> None \<and> committed (sql_begin s) = committed s
     \<and> cur (sql_begin s) = committed s \<and> issued (sql_begin s) = issued s @ [Begin]"
  by (simp add: sql_begin_def cur_def)

lemma rollback_props:
  "txn (sql_rollback s) = None \<and> committed (sql_rollback s) = committed s
     \<and> issued (sql_rollback s) = issued s @ [Rollback]"
  by (simp add: sql_rollback_def)

lemma commit_props:
  "txn s \<noteq> None \<Longrightarrow> txn (sql_commit s) = None \<and> committed (sql_commit s) = cur s
     \<and> issued (sql_commit s) = issued s @ [Commit]"
  by (auto simp: sql_commit_def cur_def split: option.splits)

text \<open>Inside an open transaction no statement touches the committed tables.\<close>

lemma select_address_frame:
  "select_address a u s = (rows, s') \<Longrightarrow>
     txn s' = txn s \<and> committed s' = committed s \<and> cur s' = cur s"
  by (auto simp: select_address_def)

lemma select_price_frame:
  "select_price m r s = (rows, s') \<Longrightarrow>
     txn s' = txn s \<and> committed s' = committed s \<and> cur s' = cur s"
  by (auto simp: select_price_def)

lemma select_courier_frame:
  "select_courier s = (rows, s') \<Longrightarrow>
     txn s' = txn s \<and> committed s' = committed s \<and> cur s' = cur s"
  by (auto simp: select_courier_def Let_def)

lemma insert_order_frame:
  "txn s \<noteq> None \<Longrightarrow> insert_order c r a n s = (res, s') \<Longrightarrow>
     txn s' \<noteq> None \<and> committed s' = committed s"
  by (auto simp: insert_order_def Let_def committed_put_open split: if_splits)

lemma insert_order_item_frame:
  "txn s \<noteq> None \<Longrightarrow> insert_order_item oid m q p s = (res, s') \<Longrightarrow>
     txn s' \<noteq> None \<and> committed s' = committed s"
  by (auto simp: insert_order_item_def Let_def committed_put_open split: if_splits)

lemma update_order_total_frame:
  "txn s \<noteq> None \<Longrightarrow> update_order_total tot oid n s = (res, s') \<Longrightarrow>
     txn s' \<noteq> None \<and> committed s' = committed s"
  by (auto simp: update_order_total_def Let_def committed_put_open split: if_splits)

lemma insert_assignment_frame:
  "txn s \<noteq> None \<Longrightarrow> insert_assignment oid cid n s = (res, s') \<Longrightarrow>
     txn s' \<noteq> None \<and> committed s' = committed s"
  by (auto simp: insert_assignment_def Let_def committed_put_open split: if_splits)

lemma upsert_payment_frame:
  "txn s \<noteq> None \<Longrightarrow> upsert_payment oid amt m n s = (res, s') \<Longrightarrow>
     txn s' \<noteq> None \<and> committed s' = committed s"
  by (auto simp: upsert_payment_def Let_def committed_put_open split: if_splits)

lemma add_items_frame:
  "txn s \<noteq> None \<Longrightarrow> add_items oid rid its tot s = (res, s') \<Longrightarrow>
     txn s' \<noteq> None \<and> committed s' = committed s"
proof (induction its arbitrary: tot s)
  case Nil
  then show ?case by simp
next
  case (Cons it its)
  show ?case
  proof (cases "\<not> truthy (menu_item_id it) \<or> \<not> truthy (quantity it) \<or> the (quantity it) \<le> 0")
    case True
    with Cons.prems show ?thesis by auto
  next
    case False
    obtain ps s1 where sp: "select_price (the (menu_item_id it)) rid s = (ps, s1)"
      by (cases "select_price (the (menu_item_id it)) rid s")
    from select_price_frame[OF sp] Cons.prems(1)
    have s1: "txn s1 \<noteq> None" "committed s1 = committed s" by auto
    show ?thesis
    proof (cases ps)
      case Nil
      with Cons.prems False sp s1 show ?thesis by auto
    next
      case (Cons p ps')
      obtain r2 s2 where ins: "insert_order_item oid (the (menu_item_id it)) (the (quantity it)) p s1 = (r2, s2)"
        by (cases "insert_order_item oid (the (menu_item_id it)) (the (quantity it)) p s1")
      from insert_order_item_frame[OF s1(1) ins] s1
      have s2: "txn s2 \<noteq> None" "committed s2 = committed s" by auto
      show ?thesis
      proof (cases r2)
        case (Inl e)
        with Cons.prems(2) False sp Cons ins s2 show ?thesis by auto
      next
        case (Inr u)
        with Cons.prems(2) False sp Cons ins
        have "add_items oid rid its (tot + p * the (quantity it)) s2 = (res, s')" by auto
        from Cons.IH[OF s2(1) this] s2 show ?thesis by simp
      qed
    qed
  qed
qed


lemma place_lines_frame:
  assumes "txn s \<noteq> None" and "place_lines c rid aid its now s = (res, s')"
  shows "txn s' \<noteq> None \<and> committed s' = committed s"
proof -
  obtain r1 s1 where a: "insert_order c rid aid now s = (r1, s1)"
    by (cases "insert_order c rid aid now s")
  from insert_order_frame[OF assms(1) a]
  have s1: "txn s1 \<noteq> None" "committed s1 = committed s" by auto
  show ?thesis
  proof (cases r1)
    case (Inl e)
    with assms(2) a s1 show ?thesis by (auto simp: place_lines_def)
  next
    case (Inr oid)
    obtain r2 s2 where b: "add_items oid rid its 0 s1 = (r2, s2)"
      by (cases "add_items oid rid its 0 s1")
    from add_items_frame[OF s1(1) b] s1
    have s2: "txn s2 \<noteq> None" "committed s2 = committed s" by auto
    show ?thesis
    proof (cases r2)
      case (Inl e)
      with assms(2) a Inr b s2 show ?thesis by (auto simp: place_lines_def)
    next
      case tot: (Inr tot)
      obtain r3 s3 where c: "update_order_total tot oid now s2 = (r3, s3)"
        by (cases "update_order_total tot oid now s2")
      from update_order_total_frame[OF s2(1) c] s2
      have s3: "txn s3 \<noteq> None" "committed s3 = committed s" by auto
      from assms(2) a Inr b tot c s3 show ?thesis
        by (cases r3) (auto simp: place_lines_def)
    qed
  qed
qed

lemma assign_and_pay_outcome:
  assumes "txn s \<noteq> None" and "assign_and_pay oid tot m now s = (res, s')"
  shows "case res of
           Inl e \<Rightarrow> txn s' \<noteq> None \<and> committed s' = committed s
         | Inr resp \<Rightarrow>
             (fst resp = 201 \<and> txn s' = None) \<or>
             (resp = (400, Error ''No courier available'') \<and> txn s' = None
                \<and> committed s' = committed s \<and> last (issued s') = Rollback)"
proof -
  obtain cs s1 where a: "select_courier s = (cs, s1)"
    by (cases "select_courier s")
  from select_courier_frame[OF a] assms(1)
  have s1: "txn s1 \<noteq> None" "committed s1 = committed s" by auto
  show ?thesis
  proof (cases cs)
    case Nil
    with assms(2) a s1 show ?thesis
      by (auto simp: assign_and_pay_def rollback_props)
  next
    case (Cons cid cs')
    obtain r2 s2 where b: "insert_assignment oid cid now s1 = (r2, s2)"
      by (cases "insert_assignment oid cid now s1")
    from insert_assignment_frame[OF s1(1) b] s1
    have s2: "txn s2 \<noteq> None" "committed s2 = committed s" by auto
    show ?thesis
    proof (cases r2)
      case (Inl e)
      with assms(2) a Cons b s2 show ?thesis by (auto simp: assign_and_pay_def)
    next
      case (Inr u)
      obtain r3 s3 where c: "upsert_payment oid tot m now s2 = (r3, s3)"
        by (cases "upsert_payment oid tot m now s2")
      from upsert_payment_frame[OF s2(1) c] s2
      have s3: "txn s3 \<noteq> None" "committed s3 = committed s" by auto
      from assms(2) a Cons b Inr c s3 commit_props[OF s3(1)] show ?thesis
        by (cases r3) (auto simp: assign_and_pay_def)
    qed
  qed
qed

lemma order_txn_outcome:
  assumes "txn s \<noteq> None" and "order_txn c rid aid its m now s = (res, s')"
  shows "case res of
           Inl e \<Rightarrow> txn s' \<noteq> None \<and> committed s' = committed s
         | Inr resp \<Rightarrow>
             (fst resp = 201 \<and> txn s' = None) \<or>
             (fst resp = 400 \<and> txn s' = None
                \<and> committed s' = committed s \<and> last (issued s') = Rollback)"
proof -
  obtain as s1 where a: "select_address aid c s = (as, s1)"
    by (cases "select_address aid c s")
  from select_address_frame[OF a] assms(1)
  have s1: "txn s1 \<noteq> None" "committed s1 = committed s" by auto
  show ?thesis
  proof (cases as)
    case Nil
    with assms(2) a s1 show ?thesis
      by (auto simp: order_txn_def rollback_props)
  next
    case (Cons x xs)
    obtain r2 s2 where b: "place_lines c rid aid its now s1 = (r2, s2)"
      by (cases "place_lines c rid aid its now s1")
    from place_lines_frame[OF s1(1) b] s1
    have s2: "txn s2 \<noteq> None" "committed s2 = committed s" by auto
    show ?thesis
    proof (cases r2)
      case (Inl e)
      with assms(2) a Cons b s2 show ?thesis by (auto simp: order_txn_def)
    next
      case (Inr p)
      obtain oid tot where p: "p = (oid, tot)" by (cases p)
      from assms(2) a Cons b Inr p
      have "assign_and_pay oid tot m now s2 = (res, s')" by (auto simp: order_txn_def)
      from assign_and_pay_outcome[OF s2(1) this] s2 show ?thesis
        by (auto split: sum.splits)
    qed
  qed
qed

lemma post_add_missing:
  "\<not> truthy (restaurant_id req) \<or> \<not> truthy (address_id req) \<or> items req = None
      \<or> the (items req) = [] \<Longrightarrow>
   post_add s user req now = ((400, Error ''Missing order details''), s)"
  by (auto simp: post_add_def)

lemma post_add_method:
  "\<not> (\<not> truthy (restaurant_id req) \<or> \<not> truthy (address_id req) \<or> items req = None
      \<or> the (items req) = []) \<Longrightarrow> \<not> isPaymentMethod (payment_method req) \<Longrightarrow>
   post_add s user req now = ((400, ErrorAllowed ''Invalid payment_method'' PAYMENT_METHODS), s)"
  by (auto simp: post_add_def)

lemma post_add_valid:
  "\<not> (\<not> truthy (restaurant_id req) \<or> \<not> truthy (address_id req) \<or> items req = None
      \<or> the (items req) = []) \<Longrightarrow> isPaymentMethod (payment_method req) \<Longrightarrow>
   post_add s user req now =
     (case order_txn (au_id user) (the (restaurant_id req)) (the (address_id req))
                (the (items req)) (the (payment_method req)) now (sql_begin s) of
           (Inl e, s1) \<Rightarrow> ((400, ErrorThrown e), sql_rollback s1)
         | (Inr resp, s1) \<Rightarrow> (resp, s1))"
  by (auto simp: post_add_def)

lemma post_add_outcome:
  assumes "txn s = None" and "post_add s user req now = (resp, s')"
  shows "txn s' = None \<and> (fst resp = 201 \<or> fst resp = 400)
         \<and> (fst resp \<noteq> 201 \<longrightarrow> committed s' = committed s)"
proof (cases "\<not> truthy (restaurant_id req) \<or> \<not> truthy (address_id req) \<or> items req = None
         \<or> the (items req) = []")
  case True
  from post_add_missing[OF True] assms show ?thesis by auto
next
  case valid: False
  show ?thesis
  proof (cases "isPaymentMethod (payment_method req)")
  case False
  from post_add_method[OF valid False] assms show ?thesis by auto
next
  case True
  obtain r1 s1 where a: "order_txn (au_id user) (the (restaurant_id req)) (the (address_id req))
                (the (items req)) (the (payment_method req)) now (sql_begin s) = (r1, s1)"
    by (cases "order_txn (au_id user) (the (restaurant_id req)) (the (address_id req))
                (the (items req)) (the (payment_method req)) now (sql_begin s)")
  from begin_props[OF assms(1)] have b: "txn (sql_begin s) \<noteq> None" "committed (sql_begin s) = committed s"
    by auto
  from order_txn_outcome[OF b(1) a] b(2) assms(2) a show ?thesis
    unfolding post_add_valid[OF valid True]
    by (cases r1) (auto simp: rollback_props)
qed
qed


subsection \<open>What each statement does to the current tables\<close>

lemma insert_order_ok:
  "insert_order c rid aid now s = (Inr oid, s') \<Longrightarrow>
     cur s' = (cur s)\<lparr>orders := orders (cur s) @
        [\<lparr>o_id = oid, o_customer_id = Some c, o_restaurant_id = Some rid,
          o_address_id = Some aid, o_status = ''CREATED'', o_total_amount = 0,
          o_created_at = now, o_updated_at = now\<rparr>]\<rparr>
     \<and> oid \<notin> set (map o_id (orders (cur s)))"
  by (auto simp: insert_order_def Let_def split: if_splits)

lemma insert_order_item_ok:
  "insert_order_item oid mid q p s = (Inr u, s') \<Longrightarrow>
     (\<exists>iid. cur s' = (cur s)\<lparr>order_items := order_items (cur s) @
        [\<lparr>oi_id = iid, oi_order_id = Some oid, oi_menu_item_id = Some mid,
          oi_quantity = q, oi_unit_price = p\<rparr>]\<rparr>)"
  by (auto simp: insert_order_item_def Let_def split: if_splits)

lemma update_order_total_ok:
  "update_order_total tot oid now s = (Inr u, s') \<Longrightarrow>
     cur s' = (cur s)\<lparr>orders := map (\<lambda>row. if o_id row = oid
                       then row\<lparr>o_total_amount := tot, o_status := ''DELIVERED'',
                                o_updated_at := now\<rparr>
                       else row) (orders (cur s))\<rparr>"
  by (auto simp: update_order_total_def Let_def split: if_splits)

lemma insert_assignment_ok:
  "insert_assignment oid cid now s = (Inr u, s') \<Longrightarrow>
     (\<exists>aid. cur s' = (cur s)\<lparr>courier_assignments := courier_assignments (cur s) @
        [\<lparr>ca_id = aid, ca_order_id = Some oid, ca_courier_id = Some cid,
          ca_assigned_at = now, ca_picked_at = None, ca_delivered_at = Some now,
          ca_status = ''DELIVERED''\<rparr>]\<rparr>)
     \<and> Some oid \<notin> set (map ca_order_id (courier_assignments (cur s)))"
  by (auto simp: insert_assignment_def Let_def split: if_splits)

lemma upsert_payment_ok:
  "upsert_payment oid amt m now s = (Inr u, s') \<Longrightarrow>
     (\<exists>P. cur s' = (cur s)\<lparr>payments := P\<rparr>
        \<and> (\<exists>p \<in> set P. p_order_id p = Some oid \<and> p_amount p = amt
              \<and> p_payment_method p = m \<and> p_status p = ''COMPLETED''))"
proof -
  assume a: "upsert_payment oid amt m now s = (Inr u, s')"
  define upd where "upd = (\<lambda>p::payment_row. if p_order_id p = Some oid
                 then p\<lparr>p_amount := amt, p_payment_method := m, p_status := ''COMPLETED''\<rparr>
                 else p)"
  show ?thesis
  proof (cases "Some oid \<in> set (map p_order_id (payments (cur s)))")
    case True
    then obtain x where x: "x \<in> set (payments (cur s))" "p_order_id x = Some oid" by auto
    from a True have c: "cur s' = (cur s)\<lparr>payments := map upd (payments (cur s))\<rparr>"
      by (auto simp: upsert_payment_def Let_def upd_def split: if_splits)
    from x(1) have "upd x \<in> set (map upd (payments (cur s)))" by auto
    moreover from x have "p_order_id (upd x) = Some oid \<and> p_amount (upd x) = amt
              \<and> p_payment_method (upd x) = m \<and> p_status (upd x) = ''COMPLETED''"
      by (simp add: upd_def)
    ultimately show ?thesis using c by blast
  next
    case False
    with a show ?thesis
      by (auto simp: upsert_payment_def Let_def split: if_splits)
  qed
qed

lemma truthy_Some: "truthy v \<Longrightarrow> v = Some (the v) \<and> the v \<noteq> 0"
  by (auto simp: truthy_def split: option.splits)

lemma add_items_ok:
  "add_items oid rid its tot s = (Inr tot', s') \<Longrightarrow>
     (\<exists>rows. cur s' = (cur s)\<lparr>order_items := order_items (cur s) @ rows\<rparr>
        \<and> map (\<lambda>r. (oi_menu_item_id r, Some (oi_quantity r))) rows
            = map (\<lambda>it. (menu_item_id it, quantity it)) its
        \<and> (\<forall>r \<in> set rows. oi_order_id r = Some oid \<and> 0 < oi_quantity r
              \<and> (\<exists>ps. [mi_price m. m \<leftarrow> menu_items (cur s),
                          mi_id m = the (oi_menu_item_id r) \<and> mi_restaurant_id m = Some rid]
                       = oi_unit_price r # ps))
        \<and> tot' = foldl (\<lambda>a r. a + oi_unit_price r * oi_quantity r) tot rows)"
proof (induction its arbitrary: tot s)
  case Nil
  then show ?case by simp
next
  case (Cons it its)
  from Cons.prems have ok: "truthy (menu_item_id it)" "truthy (quantity it)" "0 < the (quantity it)"
    by (auto split: if_splits)
  let ?mid = "the (menu_item_id it)" and ?q = "the (quantity it)"
  obtain ps s1 where sp: "select_price ?mid rid s = (ps, s1)"
    by (cases "select_price ?mid rid s")
  from select_price_frame[OF sp] have c1: "cur s1 = cur s" by simp
  from sp have psdef: "ps = [mi_price m. m \<leftarrow> menu_items (cur s),
                          mi_id m = ?mid \<and> mi_restaurant_id m = Some rid]"
    by (auto simp: select_price_def)
  from Cons.prems ok sp obtain p ps' where ps: "ps = p # ps'"
    by (cases ps) auto
  obtain r2 s2 where ins: "insert_order_item oid ?mid ?q p s1 = (r2, s2)"
    by (cases "insert_order_item oid ?mid ?q p s1")
  from Cons.prems ok sp ps ins obtain u where r2: "r2 = Inr u"
    by (cases r2) auto
  from insert_order_item_ok[OF ins[unfolded r2]] c1 obtain iid where
    c2: "cur s2 = (cur s)\<lparr>order_items := order_items (cur s) @
        [\<lparr>oi_id = iid, oi_order_id = Some oid, oi_menu_item_id = Some ?mid,
          oi_quantity = ?q, oi_unit_price = p\<rparr>]\<rparr>" by auto
  from Cons.prems ok sp ps ins r2
  have rest: "add_items oid rid its (tot + p * ?q) s2 = (Inr tot', s')" by auto
  from Cons.IH[OF rest] obtain rows where
    R: "cur s' = (cur s2)\<lparr>order_items := order_items (cur s2) @ rows\<rparr>"
       "map (\<lambda>r. (oi_menu_item_id r, Some (oi_quantity r))) rows
            = map (\<lambda>it. (menu_item_id it, quantity it)) its"
       "\<forall>r \<in> set rows. oi_order_id r = Some oid \<and> 0 < oi_quantity r
              \<and> (\<exists>ps. [mi_price m. m \<leftarrow> menu_items (cur s2),
                          mi_id m = the (oi_menu_item_id r) \<and> mi_restaurant_id m = Some rid]
                       = oi_unit_price r # ps)"
       "tot' = foldl (\<lambda>a r. a + oi_unit_price r * oi_quantity r) (tot + p * ?q) rows"
    by blast
  let ?row = "\<lparr>oi_id = iid, oi_order_id = Some oid, oi_menu_item_id = Some ?mid,
          oi_quantity = ?q, oi_unit_price = p\<rparr>"
  have 1: "cur s' = (cur s)\<lparr>order_items := order_items (cur s) @ (?row # rows)\<rparr>"
    using R(1) c2 by simp
  have 2: "map (\<lambda>r. (oi_menu_item_id r, Some (oi_quantity r))) (?row # rows)
            = map (\<lambda>it. (menu_item_id it, quantity it)) (it # its)"
    using R(2) truthy_Some[OF ok(1)] truthy_Some[OF ok(2)] by simp
  have pp: "[mi_price m. m \<leftarrow> menu_items (cur s),
               mi_id m = ?mid \<and> mi_restaurant_id m = Some rid] = p # ps'"
    using psdef ps by simp
  have 3: "\<forall>r \<in> set (?row # rows). oi_order_id r = Some oid \<and> 0 < oi_quantity r
              \<and> (\<exists>ps. [mi_price m. m \<leftarrow> menu_items (cur s),
                          mi_id m = the (oi_menu_item_id r) \<and> mi_restaurant_id m = Some rid]
                       = oi_unit_price r # ps)"
    using R(3) c2 ok(3) pp by simp
  have 4: "tot' = foldl (\<lambda>a r. a + oi_unit_price r * oi_quantity r) tot (?row # rows)"
    using R(4) by simp
  from 1 2 3 4 show ?case by blast
qed

subsection \<open>Checks that a successful statement has passed\<close>

lemma insert_order_checks:
  "insert_order c rid aid now s = (Inr oid, s') \<Longrightarrow>
     c \<in> set (users (cur s)) \<and> rid \<in> set (map r_id (restaurants (cur s)))"
  by (auto simp: insert_order_def Let_def split: if_splits)

lemma insert_order_item_checks:
  "insert_order_item oid mid q p s = (Inr u, s') \<Longrightarrow> fits_integer q"
  by (auto simp: insert_order_item_def Let_def split: if_splits)

lemma update_order_total_checks:
  "update_order_total tot oid now s = (Inr u, s') \<Longrightarrow> fits_decimal_10_2 tot"
  by (auto simp: update_order_total_def Let_def split: if_splits)

lemma rows_filter: "[f a. a \<leftarrow> xs, P a] = map f (filter P xs)"
  by (induction xs) simp_all

lemma rows_nonempty:
  "[f a. a \<leftarrow> xs, P a] = y # ys \<Longrightarrow> \<exists>a \<in> set xs. P a"
proof -
  assume "[f a. a \<leftarrow> xs, P a] = y # ys"
  then have "filter P xs \<noteq> []" unfolding rows_filter by auto
  then show ?thesis by (simp add: filter_empty_conv)
qed

lemma rows_empty:
  "[f a. a \<leftarrow> xs, P a] = [] \<Longrightarrow> \<forall>a \<in> set xs. \<not> P a"
  unfolding rows_filter by (simp add: filter_empty_conv)

lemma add_items_checks:
  "add_items oid rid its tot s = (Inr tot', s') \<Longrightarrow>
     (\<forall>it \<in> set its. truthy (menu_item_id it) \<and> truthy (quantity it) \<and> 0 < the (quantity it)
          \<and> fits_integer (the (quantity it))
          \<and> (\<exists>mi \<in> set (menu_items (cur s)). mi_id mi = the (menu_item_id it)
                \<and> mi_restaurant_id mi = Some rid))"
proof (induction its arbitrary: tot s)
  case Nil
  then show ?case by simp
next
  case (Cons it its)
  from Cons.prems have ok: "truthy (menu_item_id it)" "truthy (quantity it)" "0 < the (quantity it)"
    by (auto split: if_splits)
  let ?mid = "the (menu_item_id it)" and ?q = "the (quantity it)"
  obtain ps s1 where sp: "select_price ?mid rid s = (ps, s1)"
    by (cases "select_price ?mid rid s")
  from select_price_frame[OF sp] have c1: "cur s1 = cur s" by simp
  from sp have psdef: "[mi_price m. m \<leftarrow> menu_items (cur s),
                          mi_id m = ?mid \<and> mi_restaurant_id m = Some rid] = ps"
    by (auto simp: select_price_def)
  from Cons.prems ok sp obtain p ps' where ps: "ps = p # ps'"
    by (cases ps) auto
  from rows_nonempty[OF psdef[unfolded ps]]
  have found: "\<exists>mi \<in> set (menu_items (cur s)). mi_id mi = ?mid \<and> mi_restaurant_id mi = Some rid" .
  obtain r2 s2 where ins: "insert_order_item oid ?mid ?q p s1 = (r2, s2)"
    by (cases "insert_order_item oid ?mid ?q p s1")
  from Cons.prems ok sp ps ins obtain u where r2: "r2 = Inr u"
    by (cases r2) auto
  from insert_order_item_ok[OF ins[unfolded r2]] c1
  have c2: "menu_items (cur s2) = menu_items (cur s)" by auto
  from Cons.prems ok sp ps ins r2
  have rest: "add_items oid rid its (tot + p * ?q) s2 = (Inr tot', s')" by auto
  from Cons.IH[OF rest] insert_order_item_checks[OF ins[unfolded r2]] ok found
  show ?case unfolding c2 by simp
qed

lemma in_set_if: "x \<in> set (if c then xs else []) \<longleftrightarrow> c \<and> x \<in> set xs"
  by simp

lemma courier_rows_set:
  "set [u. u \<leftarrow> us, ur \<leftarrow> urs, fst ur = u, r \<leftarrow> rs, fst r = snd ur, snd r = n, \<not> B u]
   = {u \<in> set us. (\<exists>ur \<in> set urs. fst ur = u \<and>
         (\<exists>r \<in> set rs. fst r = snd ur \<and> snd r = n)) \<and> \<not> B u}"
proof (rule set_eqI)
  fix x
  have "x \<in> set [u. u \<leftarrow> us, ur \<leftarrow> urs, fst ur = u, r \<leftarrow> rs, fst r = snd ur, snd r = n, \<not> B u]
     \<longleftrightarrow> (\<exists>u \<in> set us. \<exists>ur \<in> set urs. fst ur = u \<and> (\<exists>r \<in> set rs. fst r = snd ur \<and> snd r = n
            \<and> \<not> B u \<and> x = u))"
    by (simp only: set_concat set_map UN_iff in_set_if list.set singleton_iff empty_iff
          bex_simps ex_simps conj_assoc) 
  also have "\<dots> \<longleftrightarrow> x \<in> {u \<in> set us. (\<exists>ur \<in> set urs. fst ur = u \<and>
         (\<exists>r \<in> set rs. fst r = snd ur \<and> snd r = n)) \<and> \<not> B u}"
    by blast
  finally show "x \<in> set [u. u \<leftarrow> us, ur \<leftarrow> urs, fst ur = u, r \<leftarrow> rs, fst r = snd ur, snd r = n, \<not> B u]
     \<longleftrightarrow> x \<in> {u \<in> set us. (\<exists>ur \<in> set urs. fst ur = u \<and>
         (\<exists>r \<in> set rs. fst r = snd ur \<and> snd r = n)) \<and> \<not> B u}" .
qed

lemma take1_sort_Cons:
  fixes xs :: "int list"
  assumes "take 1 (sort xs) = c # cs"
  shows "c \<in> set xs \<and> (\<forall>x \<in> set xs. c \<le> x) \<and> cs = []"
proof -
  from assms obtain rest where r: "sort xs = c # rest"
    by (cases "sort xs") auto
  have "sorted (sort xs)" by simp
  with r have "\<forall>x \<in> set rest. c \<le> x" by simp
  moreover have "set (sort xs) = set xs" by simp
  ultimately have "c \<in> set xs" "\<forall>x \<in> set xs. c \<le> x"
    unfolding r by auto
  moreover from assms r have "cs = []" by simp
  ultimately show ?thesis by simp
qed

lemma take1_sort_Nil:
  fixes xs :: "int list"
  shows "take 1 (sort xs) = [] \<Longrightarrow> xs = []"
proof -
  assume "take 1 (sort xs) = []"
  then have "sort xs = []" by (cases "sort xs") auto
  then have "set (sort xs) = {}" by simp
  then show "xs = []" by simp
qed


lemma select_courier_fst:
  "fst (select_courier s) =
     take 1 (sort [u. u \<leftarrow> users (cur s), ur \<leftarrow> user_roles (cur s), fst ur = u,
          r \<leftarrow> roles (cur s), fst r = snd ur, snd r = ''COURIER'', \<not> busy (cur s) u])"
  unfolding select_courier_def Let_def fst_conv ..

lemma select_courier_Cons:
  assumes "select_courier s = (cid # cs, s')"
  shows "cid \<in> set (users (cur s))
     \<and> (\<exists>ur \<in> set (user_roles (cur s)). fst ur = cid \<and>
           (\<exists>r \<in> set (roles (cur s)). fst r = snd ur \<and> snd r = ''COURIER''))
     \<and> \<not> busy (cur s) cid
     \<and> (\<forall>u \<in> set (users (cur s)).
           (\<exists>ur \<in> set (user_roles (cur s)). fst ur = u \<and>
              (\<exists>r \<in> set (roles (cur s)). fst r = snd ur \<and> snd r = ''COURIER''))
           \<and> \<not> busy (cur s) u \<longrightarrow> cid \<le> u)"
proof -
  define n where "n = ''COURIER''"
  define xs where "xs = [u. u \<leftarrow> users (cur s), ur \<leftarrow> user_roles (cur s), fst ur = u,
          r \<leftarrow> roles (cur s), fst r = snd ur, snd r = n, \<not> busy (cur s) u]"
  have "fst (select_courier s) = cid # cs" by (simp only: assms fst_conv)
  then have "take 1 (sort xs) = cid # cs"
    unfolding select_courier_fst xs_def n_def .
  from take1_sort_Cons[OF this] have "cid \<in> set xs" "\<forall>x \<in> set xs. cid \<le> x" by blast+
  then have "cid \<in> {u \<in> set (users (cur s)). (\<exists>ur \<in> set (user_roles (cur s)). fst ur = u \<and>
         (\<exists>r \<in> set (roles (cur s)). fst r = snd ur \<and> snd r = n)) \<and> \<not> busy (cur s) u}"
     "\<forall>x \<in> {u \<in> set (users (cur s)). (\<exists>ur \<in> set (user_roles (cur s)). fst ur = u \<and>
         (\<exists>r \<in> set (roles (cur s)). fst r = snd ur \<and> snd r = n)) \<and> \<not> busy (cur s) u}. cid \<le> x"
    unfolding xs_def courier_rows_set by blast+
  then show ?thesis unfolding n_def[symmetric] by blast
qed


lemma select_courier_Nil:
  assumes "select_courier s = ([], s')"
  shows "\<not> (\<exists>u \<in> set (users (cur s)).
           (\<exists>ur \<in> set (user_roles (cur s)). fst ur = u \<and>
              (\<exists>r \<in> set (roles (cur s)). fst r = snd ur \<and> snd r = ''COURIER''))
           \<and> \<not> busy (cur s) u)"
proof -
  define n where "n = ''COURIER''"
  define xs where "xs = [u. u \<leftarrow> users (cur s), ur \<leftarrow> user_roles (cur s), fst ur = u,
          r \<leftarrow> roles (cur s), fst r = snd ur, snd r = n, \<not> busy (cur s) u]"
  have "fst (select_courier s) = []" by (simp only: assms fst_conv)
  then have "take 1 (sort xs) = []"
    unfolding select_courier_fst xs_def n_def .
  from take1_sort_Nil[OF this] have "set xs = {}" by simp
  then have "{u \<in> set (users (cur s)). (\<exists>ur \<in> set (user_roles (cur s)). fst ur = u \<and>
         (\<exists>r \<in> set (roles (cur s)). fst r = snd ur \<and> snd r = n)) \<and> \<not> busy (cur s) u} = {}"
    unfolding xs_def courier_rows_set .
  then show ?thesis unfolding n_def[symmetric] by blast
qed

subsection \<open>The successful path\<close>

lemma place_lines_ok:
  assumes "place_lines c rid aid its now s = (Inr (oid, tot), s')"
  shows "\<exists>rows. cur s' = (cur s)\<lparr>
            orders := map (\<lambda>row. if o_id row = oid
                       then row\<lparr>o_total_amount := tot, o_status := ''DELIVERED'',
                                o_updated_at := now\<rparr>
                       else row)
                (orders (cur s) @
                  [\<lparr>o_id = oid, o_customer_id = Some c, o_restaurant_id = Some rid,
                    o_address_id = Some aid, o_status = ''CREATED'', o_total_amount = 0,
                    o_created_at = now, o_updated_at = now\<rparr>]),
            order_items := order_items (cur s) @ rows\<rparr>
        \<and> oid \<notin> set (map o_id (orders (cur s)))
        \<and> rid \<in> set (map r_id (restaurants (cur s)))
        \<and> fits_decimal_10_2 tot
        \<and> (\<forall>it \<in> set its. truthy (menu_item_id it) \<and> truthy (quantity it) \<and> 0 < the (quantity it)
          \<and> fits_integer (the (quantity it))
          \<and> (\<exists>mi \<in> set (menu_items (cur s)). mi_id mi = the (menu_item_id it)
                \<and> mi_restaurant_id mi = Some rid))
        \<and> map (\<lambda>r. (oi_menu_item_id r, Some (oi_quantity r))) rows
            = map (\<lambda>it. (menu_item_id it, quantity it)) its
        \<and> (\<forall>r \<in> set rows. oi_order_id r = Some oid \<and> 0 < oi_quantity r
              \<and> (\<exists>ps. [mi_price m. m \<leftarrow> menu_items (cur s),
                          mi_id m = the (oi_menu_item_id r) \<and> mi_restaurant_id m = Some rid]
                       = oi_unit_price r # ps))
        \<and> tot = foldl (\<lambda>a r. a + oi_unit_price r * oi_quantity r) 0 rows"
proof -
  obtain r1 s1 where a: "insert_order c rid aid now s = (r1, s1)"
    by (cases "insert_order c rid aid now s")
  from assms a obtain oid' where r1: "r1 = Inr oid'"
    by (cases r1) (auto simp: place_lines_def)
  obtain r2 s2 where b: "add_items oid' rid its 0 s1 = (r2, s2)"
    by (cases "add_items oid' rid its 0 s1")
  from assms a r1 b obtain tot' where r2: "r2 = Inr tot'"
    by (cases r2) (auto simp: place_lines_def)
  obtain r3 s3 where c: "update_order_total tot' oid' now s2 = (r3, s3)"
    by (cases "update_order_total tot' oid' now s2")
  from assms a r1 b r2 c obtain u where r3: "r3 = Inr u"
    by (cases r3) (auto simp: place_lines_def)
  from assms a r1 b r2 c r3 have eq: "oid' = oid" "tot' = tot" "s3 = s'"
    by (auto simp: place_lines_def)
  note A = insert_order_ok[OF a[unfolded r1 eq]] insert_order_checks[OF a[unfolded r1 eq]]
  note B = add_items_ok[OF b[unfolded r2 eq]] add_items_checks[OF b[unfolded r2 eq]]
  note C = update_order_total_ok[OF c[unfolded r3 eq]] update_order_total_checks[OF c[unfolded r3 eq]]
  from B(1) obtain rows where
    R: "cur s2 = (cur s1)\<lparr>order_items := order_items (cur s1) @ rows\<rparr>"
       "map (\<lambda>r. (oi_menu_item_id r, Some (oi_quantity r))) rows
            = map (\<lambda>it. (menu_item_id it, quantity it)) its"
       "\<forall>r \<in> set rows. oi_order_id r = Some oid \<and> 0 < oi_quantity r
              \<and> (\<exists>ps. [mi_price m. m \<leftarrow> menu_items (cur s1),
                          mi_id m = the (oi_menu_item_id r) \<and> mi_restaurant_id m = Some rid]
                       = oi_unit_price r # ps)"
       "tot = foldl (\<lambda>a r. a + oi_unit_price r * oi_quantity r) 0 rows"
    by blast
  have m1: "menu_items (cur s1) = menu_items (cur s)" using A(1) by simp
  have 1: "cur s' = (cur s)\<lparr>
            orders := map (\<lambda>row. if o_id row = oid
                       then row\<lparr>o_total_amount := tot, o_status := ''DELIVERED'',
                                o_updated_at := now\<rparr>
                       else row)
                (orders (cur s) @
                  [\<lparr>o_id = oid, o_customer_id = Some c, o_restaurant_id = Some rid,
                    o_address_id = Some aid, o_status = ''CREATED'', o_total_amount = 0,
                    o_created_at = now, o_updated_at = now\<rparr>]),
            order_items := order_items (cur s) @ rows\<rparr>"
    using C(1) R(1) A(1) by simp
  from 1 A B(2)[unfolded m1] C(2) R(2,3,4) m1 show ?thesis
    by (intro exI[of _ rows]) simp
qed


lemma courier_free_cong:
  "users t = users t' \<Longrightarrow> user_roles t = user_roles t' \<Longrightarrow> roles t = roles t' \<Longrightarrow>
   courier_assignments t = courier_assignments t' \<Longrightarrow> courier_free t u = courier_free t' u"
  by (simp add: courier_free_def busy_def)

lemma select_courier_first:
  "select_courier s = (cid # cs, s') \<Longrightarrow>
     courier_free (cur s) cid \<and> (\<forall>u. courier_free (cur s) u \<longrightarrow> cid \<le> u)"
  using select_courier_Cons[of s cid cs s'] unfolding courier_free_def by blast

lemma select_courier_none:
  "select_courier s = ([], s') \<Longrightarrow> \<not> courier_free (cur s) u"
  using select_courier_Nil[of s s'] unfolding courier_free_def by blast

lemma assign_and_pay_ok:
  assumes "txn s \<noteq> None" and "assign_and_pay oid tot m now s = (Inr (201, b), s')"
  shows "\<exists>cid aid P. b = OrderCreated oid tot cid ''DELIVERED'' ''COMPLETED''
      \<and> committed s' = (cur s)\<lparr>
           courier_assignments := courier_assignments (cur s) @
             [\<lparr>ca_id = aid, ca_order_id = Some oid, ca_courier_id = Some cid,
               ca_assigned_at = now, ca_picked_at = None, ca_delivered_at = Some now,
               ca_status = ''DELIVERED''\<rparr>],
           payments := P\<rparr>
      \<and> txn s' = None \<and> last (issued s') = Commit
      \<and> Some oid \<notin> set (map ca_order_id (courier_assignments (cur s)))
      \<and> (\<exists>p \<in> set P. p_order_id p = Some oid \<and> p_amount p = tot
              \<and> p_payment_method p = m \<and> p_status p = ''COMPLETED'')
      \<and> courier_free (cur s) cid \<and> (\<forall>u. courier_free (cur s) u \<longrightarrow> cid \<le> u)"
proof -
  obtain cs s1 where a: "select_courier s = (cs, s1)"
    by (cases "select_courier s")
  from assms(2) a obtain cid cs' where cs: "cs = cid # cs'"
    by (cases cs) (auto simp: assign_and_pay_def)
  from select_courier_frame[OF a] assms(1)
  have s1: "txn s1 \<noteq> None" "cur s1 = cur s" by auto
  obtain r2 s2 where b: "insert_assignment oid cid now s1 = (r2, s2)"
    by (cases "insert_assignment oid cid now s1")
  from assms(2) a cs b obtain u2 where r2: "r2 = Inr u2"
    by (cases r2) (auto simp: assign_and_pay_def)
  from insert_assignment_frame[OF s1(1) b] have s2: "txn s2 \<noteq> None" by simp
  obtain r3 s3 where c: "upsert_payment oid tot m now s2 = (r3, s3)"
    by (cases "upsert_payment oid tot m now s2")
  from assms(2) a cs b r2 c obtain u3 where r3: "r3 = Inr u3"
    by (cases r3) (auto simp: assign_and_pay_def)
  from upsert_payment_frame[OF s2 c] have s3: "txn s3 \<noteq> None" by simp
  from assms(2) a cs b r2 c r3
  have fin: "b = OrderCreated oid tot cid ''DELIVERED'' ''COMPLETED''" "s' = sql_commit s3"
    by (auto simp: assign_and_pay_def)
  note A = select_courier_first[OF a[unfolded cs]]
  note B = insert_assignment_ok[OF b[unfolded r2]]
  note C = upsert_payment_ok[OF c[unfolded r3]]
  from B obtain aid where
    B1: "cur s2 = (cur s)\<lparr>courier_assignments := courier_assignments (cur s) @
        [\<lparr>ca_id = aid, ca_order_id = Some oid, ca_courier_id = Some cid,
          ca_assigned_at = now, ca_picked_at = None, ca_delivered_at = Some now,
          ca_status = ''DELIVERED''\<rparr>]\<rparr>"
    and B2: "Some oid \<notin> set (map ca_order_id (courier_assignments (cur s)))"
    unfolding s1(2) by blast
  from C obtain P where
    C1: "cur s3 = (cur s2)\<lparr>payments := P\<rparr>"
    and C2: "\<exists>p \<in> set P. p_order_id p = Some oid \<and> p_amount p = tot
              \<and> p_payment_method p = m \<and> p_status p = ''COMPLETED''"
    by blast
  from commit_props[OF s3] fin(2)
  have D: "txn s' = None" "committed s' = cur s3" "last (issued s') = Commit" by simp_all
  have E: "committed s' = (cur s)\<lparr>
           courier_assignments := courier_assignments (cur s) @
             [\<lparr>ca_id = aid, ca_order_id = Some oid, ca_courier_id = Some cid,
               ca_assigned_at = now, ca_picked_at = None, ca_delivered_at = Some now,
               ca_status = ''DELIVERED''\<rparr>],
           payments := P\<rparr>"
    unfolding D(2) C1 B1 ..
  from fin(1) E D(1,3) B2 C2 A show ?thesis by blast
qed


lemma select_address_rows:
  "select_address aid c s = (x # xs, s') \<Longrightarrow>
     \<exists>a \<in> set (user_addresses (cur s)). ua_id a = aid \<and> ua_user_id a = Some c"
proof -
  assume "select_address aid c s = (x # xs, s')"
  then have "[ua_id a. a \<leftarrow> user_addresses (cur s), ua_id a = aid \<and> ua_user_id a = Some c] = x # xs"
    by (simp add: select_address_def)
  then show ?thesis by (rule rows_nonempty)
qed

lemma order_txn_ok:
  assumes "txn s \<noteq> None" and "order_txn c rid aid its m now s = (Inr (201, b), s')"
  obtains oid tot cid rows caid P where
    "\<exists>a \<in> set (user_addresses (cur s)). ua_id a = aid \<and> ua_user_id a = Some c"
    "b = OrderCreated oid tot cid ''DELIVERED'' ''COMPLETED''"
    "committed s' = (cur s)\<lparr>
        orders := map (\<lambda>row. if o_id row = oid
                       then row\<lparr>o_total_amount := tot, o_status := ''DELIVERED'',
                                o_updated_at := now\<rparr>
                       else row)
                (orders (cur s) @
                  [\<lparr>o_id = oid, o_customer_id = Some c, o_restaurant_id = Some rid,
                    o_address_id = Some aid, o_status = ''CREATED'', o_total_amount = 0,
                    o_created_at = now, o_updated_at = now\<rparr>]),
        order_items := order_items (cur s) @ rows,
        courier_assignments := courier_assignments (cur s) @
             [\<lparr>ca_id = caid, ca_order_id = Some oid, ca_courier_id = Some cid,
               ca_assigned_at = now, ca_picked_at = None, ca_delivered_at = Some now,
               ca_status = ''DELIVERED''\<rparr>],
        payments := P\<rparr>"
    "txn s' = None" "last (issued s') = Commit"
    "oid \<notin> set (map o_id (orders (cur s)))"
    "rid \<in> set (map r_id (restaurants (cur s)))"
    "fits_decimal_10_2 tot"
    "\<forall>it \<in> set its. truthy (menu_item_id it) \<and> truthy (quantity it) \<and> 0 < the (quantity it)
          \<and> fits_integer (the (quantity it))
          \<and> (\<exists>mi \<in> set (menu_items (cur s)). mi_id mi = the (menu_item_id it)
                \<and> mi_restaurant_id mi = Some rid)"
    "map (\<lambda>r. (oi_menu_item_id r, Some (oi_quantity r))) rows
       = map (\<lambda>it. (menu_item_id it, quantity it)) its"
    "\<forall>r \<in> set rows. oi_order_id r = Some oid \<and> 0 < oi_quantity r
        \<and> (\<exists>ps. [mi_price m. m \<leftarrow> menu_items (cur s),
                    mi_id m = the (oi_menu_item_id r) \<and> mi_restaurant_id m = Some rid]
                 = oi_unit_price r # ps)"
    "tot = foldl (\<lambda>a r. a + oi_unit_price r * oi_quantity r) 0 rows"
    "Some oid \<notin> set (map ca_order_id (courier_assignments (cur s)))"
    "\<exists>p \<in> set P. p_order_id p = Some oid \<and> p_amount p = tot
        \<and> p_payment_method p = m \<and> p_status p = ''COMPLETED''"
    "courier_free (cur s) cid" "\<forall>u. courier_free (cur s) u \<longrightarrow> cid \<le> u"
proof -
  obtain as s1 where a: "select_address aid c s = (as, s1)"
    by (cases "select_address aid c s")
  from assms(2) a obtain x xs where as: "as = x # xs"
    by (cases as) (auto simp: order_txn_def)
  from select_address_frame[OF a] assms(1)
  have s1: "txn s1 \<noteq> None" "cur s1 = cur s" by auto
  obtain r2 s2 where b: "place_lines c rid aid its now s1 = (r2, s2)"
    by (cases "place_lines c rid aid its now s1")
  from assms(2) a as b obtain oid tot where r2: "r2 = Inr (oid, tot)"
    by (cases r2) (auto simp: order_txn_def)
  from place_lines_frame[OF s1(1) b] have s2: "txn s2 \<noteq> None" by simp
  from assms(2) a as b r2
  have c: "assign_and_pay oid tot m now s2 = (Inr (201, b), s')"
    by (auto simp: order_txn_def)
  from place_lines_ok[OF b[unfolded r2]] obtain rows where
    P1: "cur s2 = (cur s)\<lparr>
            orders := map (\<lambda>row. if o_id row = oid
                       then row\<lparr>o_total_amount := tot, o_status := ''DELIVERED'',
                                o_updated_at := now\<rparr>
                       else row)
                (orders (cur s) @
                  [\<lparr>o_id = oid, o_customer_id = Some c, o_restaurant_id = Some rid,
                    o_address_id = Some aid, o_status = ''CREATED'', o_total_amount = 0,
                    o_created_at = now, o_updated_at = now\<rparr>]),
            order_items := order_items (cur s) @ rows\<rparr>"
    and P2: "oid \<notin> set (map o_id (orders (cur s)))"
    and P3: "rid \<in> set (map r_id (restaurants (cur s)))"
    and P4: "fits_decimal_10_2 tot"
    and P5: "\<forall>it \<in> set its. truthy (menu_item_id it) \<and> truthy (quantity it) \<and> 0 < the (quantity it)
          \<and> fits_integer (the (quantity it))
          \<and> (\<exists>mi \<in> set (menu_items (cur s)). mi_id mi = the (menu_item_id it)
                \<and> mi_restaurant_id mi = Some rid)"
    and P6: "map (\<lambda>r. (oi_menu_item_id r, Some (oi_quantity r))) rows
            = map (\<lambda>it. (menu_item_id it, quantity it)) its"
    and P7: "\<forall>r \<in> set rows. oi_order_id r = Some oid \<and> 0 < oi_quantity r
              \<and> (\<exists>ps. [mi_price m. m \<leftarrow> menu_items (cur s),
                          mi_id m = the (oi_menu_item_id r) \<and> mi_restaurant_id m = Some rid]
                       = oi_unit_price r # ps)"
    and P8: "tot = foldl (\<lambda>a r. a + oi_unit_price r * oi_quantity r) 0 rows"
    unfolding s1(2) by (elim exE conjE) (rule that, assumption+)
  from assign_and_pay_ok[OF s2 c] obtain cid caid P where
    Q1: "b = OrderCreated oid tot cid ''DELIVERED'' ''COMPLETED''"
    and Q2: "committed s' = (cur s2)\<lparr>
           courier_assignments := courier_assignments (cur s2) @
             [\<lparr>ca_id = caid, ca_order_id = Some oid, ca_courier_id = Some cid,
               ca_assigned_at = now, ca_picked_at = None, ca_delivered_at = Some now,
               ca_status = ''DELIVERED''\<rparr>],
           payments := P\<rparr>"
    and Q3: "txn s' = None" and Q4: "last (issued s') = Commit"
    and Q5: "Some oid \<notin> set (map ca_order_id (courier_assignments (cur s2)))"
    and Q6: "\<exists>p \<in> set P. p_order_id p = Some oid \<and> p_amount p = tot
              \<and> p_payment_method p = m \<and> p_status p = ''COMPLETED''"
    and Q7: "courier_free (cur s2) cid" and Q8: "\<forall>u. courier_free (cur s2) u \<longrightarrow> cid \<le> u"
    by (elim exE conjE) (rule that, assumption+)
  have same: "users (cur s2) = users (cur s)" "user_roles (cur s2) = user_roles (cur s)"
    "roles (cur s2) = roles (cur s)" "courier_assignments (cur s2) = courier_assignments (cur s)"
    unfolding P1 by simp_all
  have cf: "\<And>u. courier_free (cur s2) u = courier_free (cur s) u"
    by (rule courier_free_cong[OF same])
  have R0: "\<exists>a \<in> set (user_addresses (cur s)). ua_id a = aid \<and> ua_user_id a = Some c"
    by (rule select_address_rows[OF a[unfolded as]])
  have R3: "committed s' = (cur s)\<lparr>
        orders := map (\<lambda>row. if o_id row = oid
                       then row\<lparr>o_total_amount := tot, o_status := ''DELIVERED'',
                                o_updated_at := now\<rparr>
                       else row)
                (orders (cur s) @
                  [\<lparr>o_id = oid, o_customer_id = Some c, o_restaurant_id = Some rid,
                    o_address_id = Some aid, o_status = ''CREATED'', o_total_amount = 0,
                    o_created_at = now, o_updated_at = now\<rparr>]),
        order_items := order_items (cur s) @ rows,
        courier_assignments := courier_assignments (cur s) @
             [\<lparr>ca_id = caid, ca_order_id = Some oid, ca_courier_id = Some cid,
               ca_assigned_at = now, ca_picked_at = None, ca_delivered_at = Some now,
               ca_status = ''DELIVERED''\<rparr>],
        payments := P\<rparr>"
    unfolding Q2 same(4) unfolding P1 ..
  show thesis
    by (rule that[OF R0 Q1 R3 Q3 Q4 P2 P3 P4 P5 P6 P7 P8 Q5[unfolded same(4)] Q6
          Q7[unfolded cf] Q8[unfolded cf]])
qed

subsection \<open>A request answered 201\<close>

lemma post_add_success:
  assumes "txn s = None" and "post_add s user req now = ((201, b), s')"
  obtains rid aid its m oid tot cid rows caid P where
    "restaurant_id req = Some rid" "address_id req = Some aid" "items req = Some its"
    "its \<noteq> []" "payment_method req = Some m" "m \<in> set PAYMENT_METHODS"
    "\<exists>a \<in> set (user_addresses (committed s)). ua_id a = aid \<and> ua_user_id a = Some (au_id user)"
    "b = OrderCreated oid tot cid ''DELIVERED'' ''COMPLETED''"
    "committed s' = (committed s)\<lparr>
        orders := map (\<lambda>row. if o_id row = oid
                       then row\<lparr>o_total_amount := tot, o_status := ''DELIVERED'',
                                o_updated_at := now\<rparr>
                       else row)
                (orders (committed s) @
                  [\<lparr>o_id = oid, o_customer_id = Some (au_id user), o_restaurant_id = Some rid,
                    o_address_id = Some aid, o_status = ''CREATED'', o_total_amount = 0,
                    o_created_at = now, o_updated_at = now\<rparr>]),
        order_items := order_items (committed s) @ rows,
        courier_assignments := courier_assignments (committed s) @
             [\<lparr>ca_id = caid, ca_order_id = Some oid, ca_courier_id = Some cid,
               ca_assigned_at = now, ca_picked_at = None, ca_delivered_at = Some now,
               ca_status = ''DELIVERED''\<rparr>],
        payments := P\<rparr>"
    "txn s' = None" "last (issued s') = Commit"
    "oid \<notin> set (map o_id (orders (committed s)))"
    "rid \<in> set (map r_id (restaurants (committed s)))"
    "fits_decimal_10_2 tot"
    "\<forall>it \<in> set its. truthy (menu_item_id it) \<and> truthy (quantity it) \<and> 0 < the (quantity it)
          \<and> fits_integer (the (quantity it))
          \<and> (\<exists>mi \<in> set (menu_items (committed s)). mi_id mi = the (menu_item_id it)
                \<and> mi_restaurant_id mi = Some rid)"
    "map (\<lambda>r. (oi_menu_item_id r, Some (oi_quantity r))) rows
       = map (\<lambda>it. (menu_item_id it, quantity it)) its"
    "\<forall>r \<in> set rows. oi_order_id r = Some oid \<and> 0 < oi_quantity r
        \<and> (\<exists>ps. [mi_price m. m \<leftarrow> menu_items (committed s),
                    mi_id m = the (oi_menu_item_id r) \<and> mi_restaurant_id m = Some rid]
                 = oi_unit_price r # ps)"
    "tot = foldl (\<lambda>a r. a + oi_unit_price r * oi_quantity r) 0 rows"
    "Some oid \<notin> set (map ca_order_id (courier_assignments (committed s)))"
    "\<exists>p \<in> set P. p_order_id p = Some oid \<and> p_amount p = tot
        \<and> p_payment_method p = m \<and> p_status p = ''COMPLETED''"
    "courier_free (committed s) cid" "\<forall>u. courier_free (committed s) u \<longrightarrow> cid \<le> u"
proof -
  have v1: "\<not> (\<not> truthy (restaurant_id req) \<or> \<not> truthy (address_id req) \<or> items req = None
      \<or> the (items req) = [])"
  proof
    assume "\<not> truthy (restaurant_id req) \<or> \<not> truthy (address_id req) \<or> items req = None
      \<or> the (items req) = []"
    from post_add_missing[OF this, of s user now] assms(2) show False by simp
  qed
  have v2: "isPaymentMethod (payment_method req)"
  proof (rule ccontr)
    assume "\<not> isPaymentMethod (payment_method req)"
    from post_add_method[OF v1 this, of s user now] assms(2) show False by simp
  qed
  obtain rid aid its m where
    rq: "restaurant_id req = Some rid" "address_id req = Some aid" "items req = Some its"
        "its \<noteq> []" "payment_method req = Some m" "m \<in> set PAYMENT_METHODS"
    using v1 v2 by (auto simp: truthy_def isPaymentMethod_def split: option.splits)
  obtain r1 s1 where a: "order_txn (au_id user) rid aid its m now (sql_begin s) = (r1, s1)"
    by (cases "order_txn (au_id user) rid aid its m now (sql_begin s)")
  from begin_props[OF assms(1)]
  have bg: "txn (sql_begin s) \<noteq> None" "cur (sql_begin s) = committed s" by auto
  from assms(2) a have r1: "r1 = Inr (201, b)" and s1: "s1 = s'"
    unfolding post_add_valid[OF v1 v2] by (cases r1; auto simp: rq)+
  from order_txn_ok[OF bg(1) a[unfolded r1 s1], unfolded bg(2)]
  obtain oid tot cid rows caid P where
    "\<exists>a \<in> set (user_addresses (committed s)). ua_id a = aid \<and> ua_user_id a = Some (au_id user)"
    "b = OrderCreated oid tot cid ''DELIVERED'' ''COMPLETED''"
    "committed s' = (committed s)\<lparr>
        orders := map (\<lambda>row. if o_id row = oid
                       then row\<lparr>o_total_amount := tot, o_status := ''DELIVERED'',
                                o_updated_at := now\<rparr>
                       else row)
                (orders (committed s) @
                  [\<lparr>o_id = oid, o_customer_id = Some (au_id user), o_restaurant_id = Some rid,
                    o_address_id = Some aid, o_status = ''CREATED'', o_total_amount = 0,
                    o_created_at = now, o_updated_at = now\<rparr>]),
        order_items := order_items (committed s) @ rows,
        courier_assignments := courier_assignments (committed s) @
             [\<lparr>ca_id = caid, ca_order_id = Some oid, ca_courier_id = Some cid,
               ca_assigned_at = now, ca_picked_at = None, ca_delivered_at = Some now,
               ca_status = ''DELIVERED''\<rparr>],
        payments := P\<rparr>"
    "txn s' = None" "last (issued s') = Commit"
    "oid \<notin> set (map o_id (orders (committed s)))"
    "rid \<in> set (map r_id (restaurants (committed s)))"
    "fits_decimal_10_2 tot"
    "\<forall>it \<in> set its. truthy (menu_item_id it) \<and> truthy (quantity it) \<and> 0 < the (quantity it)
          \<and> fits_integer (the (quantity it))
          \<and> (\<exists>mi \<in> set (menu_items (committed s)). mi_id mi = the (menu_item_id it)
                \<and> mi_restaurant_id mi = Some rid)"
    "map (\<lambda>r. (oi_menu_item_id r, Some (oi_quantity r))) rows
       = map (\<lambda>it. (menu_item_id it, quantity it)) its"
    "\<forall>r \<in> set rows. oi_order_id r = Some oid \<and> 0 < oi_quantity r
        \<and> (\<exists>ps. [mi_price m. m \<leftarrow> menu_items (committed s),
                    mi_id m = the (oi_menu_item_id r) \<and> mi_restaurant_id m = Some rid]
                 = oi_unit_price r # ps)"
    "tot = foldl (\<lambda>a r. a + oi_unit_price r * oi_quantity r) 0 rows"
    "Some oid \<notin> set (map ca_order_id (courier_assignments (committed s)))"
    "\<exists>p \<in> set P. p_order_id p = Some oid \<and> p_amount p = tot
        \<and> p_payment_method p = m \<and> p_status p = ''COMPLETED''"
    "courier_free (committed s) cid" "\<forall>u. courier_free (committed s) u \<longrightarrow> cid \<le> u"
    .
  from that[OF rq this] show thesis .
qed




lemma ex_run:
  "post_add ex_server ex_customer ex_request 5
     = ((201, OrderCreated 1 2500 9 ''DELIVERED'' ''COMPLETED''), ex_server_after)"
  by code_simp

subsection \<open>A request answered 400 after validation\<close>

lemma assign_and_pay_400:
  assumes "assign_and_pay oid tot m now s = (Inr resp, s')" and "fst resp \<noteq> 201"
  shows "resp = (400, Error ''No courier available'') \<and> (\<forall>u. \<not> courier_free (cur s) u)"
proof -
  obtain cs s1 where a: "select_courier s = (cs, s1)"
    by (cases "select_courier s")
  show ?thesis
  proof (cases cs)
    case Nil
    from select_courier_none[OF a[unfolded Nil]] assms(1) a Nil show ?thesis
      by (auto simp: assign_and_pay_def)
  next
    case (Cons cid cs')
    with assms a show ?thesis
      by (auto simp: assign_and_pay_def split: prod.splits sum.splits)
  qed
qed

lemma order_txn_400:
  assumes "order_txn c rid aid its m now s = (Inr resp, s')" and "fst resp \<noteq> 201"
  shows "(resp = (400, Error ''Invalid address_id (not found or not yours)'')
            \<and> \<not> (\<exists>a \<in> set (user_addresses (cur s)). ua_id a = aid \<and> ua_user_id a = Some c))
       \<or> (resp = (400, Error ''No courier available'') \<and> (\<forall>u. \<not> courier_free (cur s) u))"
proof -
  obtain as s1 where a: "select_address aid c s = (as, s1)"
    by (cases "select_address aid c s")
  from select_address_frame[OF a] have s1: "cur s1 = cur s" by simp
  show ?thesis
  proof (cases as)
    case Nil
    from a Nil have "[ua_id a. a \<leftarrow> user_addresses (cur s), ua_id a = aid \<and> ua_user_id a = Some c] = []"
      by (simp add: select_address_def)
    from rows_empty[OF this] assms(1) a Nil show ?thesis
      by (auto simp: order_txn_def)
  next
    case (Cons x xs)
    obtain r2 s2 where b: "place_lines c rid aid its now s1 = (r2, s2)"
      by (cases "place_lines c rid aid its now s1")
    from assms(1) a Cons b obtain oid tot where r2: "r2 = Inr (oid, tot)"
      by (cases r2) (auto simp: order_txn_def)
    from assms(1) a Cons b r2
    have c: "assign_and_pay oid tot m now s2 = (Inr resp, s')"
      by (auto simp: order_txn_def)
    from place_lines_ok[OF b[unfolded r2]] obtain rows where
      "cur s2 = (cur s1)\<lparr>
            orders := map (\<lambda>row. if o_id row = oid
                       then row\<lparr>o_total_amount := tot, o_status := ''DELIVERED'',
                                o_updated_at := now\<rparr>
                       else row)
                (orders (cur s1) @
                  [\<lparr>o_id = oid, o_customer_id = Some c, o_restaurant_id = Some rid,
                    o_address_id = Some aid, o_status = ''CREATED'', o_total_amount = 0,
                    o_created_at = now, o_updated_at = now\<rparr>]),
            order_items := order_items (cur s1) @ rows\<rparr>"
      by (elim exE conjE) (rule that, assumption)
    then have same: "users (cur s2) = users (cur s)" "user_roles (cur s2) = user_roles (cur s)"
      "roles (cur s2) = roles (cur s)" "courier_assignments (cur s2) = courier_assignments (cur s)"
      unfolding s1 by simp_all
    from assign_and_pay_400[OF c assms(2)] show ?thesis
      unfolding courier_free_cong[OF same] by simp
  qed
qed

lemma post_add_failure:
  assumes "txn s = None"
    and "\<not> (\<not> truthy (restaurant_id req) \<or> \<not> truthy (address_id req) \<or> items req = None
            \<or> the (items req) = [])"
    and "isPaymentMethod (payment_method req)"
    and "post_add s user req now = (resp, s')" and "fst resp \<noteq> 201"
  shows "fst resp = 400 \<and> committed s' = committed s \<and> txn s' = None
         \<and> last (issued s') = Rollback
         \<and> ((\<exists>e. resp = (400, ErrorThrown e))
            \<or> (resp = (400, Error ''Invalid address_id (not found or not yours)'')
                 \<and> \<not> (\<exists>a \<in> set (user_addresses (committed s)).
                         ua_id a = the (address_id req) \<and> ua_user_id a = Some (au_id user)))
            \<or> (resp = (400, Error ''No courier available'')
                 \<and> (\<forall>u. \<not> courier_free (committed s) u)))"
proof -
  obtain r1 s1 where a: "order_txn (au_id user) (the (restaurant_id req)) (the (address_id req))
                (the (items req)) (the (payment_method req)) now (sql_begin s) = (r1, s1)"
    by (cases "order_txn (au_id user) (the (restaurant_id req)) (the (address_id req))
                (the (items req)) (the (payment_method req)) now (sql_begin s)")
  from begin_props[OF assms(1)]
  have bg: "txn (sql_begin s) \<noteq> None" "committed (sql_begin s) = committed s"
    "cur (sql_begin s) = committed s" by auto
  note out = order_txn_outcome[OF bg(1) a]
  show ?thesis
  proof (cases r1)
    case (Inl e)
    with out bg(2) assms(4) a show ?thesis
      unfolding post_add_valid[OF assms(2,3)] by (auto simp: rollback_props)
  next
    case (Inr r)
    with assms(4) a have eq: "r = resp" "s1 = s'"
      unfolding post_add_valid[OF assms(2,3)] by auto
    from order_txn_400[OF a[unfolded Inr eq] assms(5)] out[unfolded Inr eq] assms(5) bg(2)
    show ?thesis unfolding bg(3) by auto
  qed
qed

lemma ex_cross_run:
  "post_add ex_server ex_customer ex_request_cross 5
     = ((400, ErrorThrown (MenuItemNotFound 13)),
        ex_server\<lparr>seqs := \<lparr>orders_id_seq = 1, order_items_id_seq = 1,
                            courier_assignments_id_seq = 0, payments_id_seq = 0\<rparr>,
                  issued := [Begin, Select ''user_addresses'', Insert ''orders'',
                             Select ''menu_items'', Insert ''order_items'',
                             Select ''menu_items'', Rollback]\<rparr>)"
  by code_simp


section \<open>The order total\<close>



section \<open>Rollback\<close>

text \<open>
  C2. Take a request that passes validation, so that the handler opens a transaction.
  If the answer is not 201, the answer is 400, the committed tables are exactly those of
  before (no row of orders, order_items, courier_assignments or payments, nor of any
  other table, has been added or changed), no transaction is left open, and the last
  statement sent is ROLLBACK. And the answer is not 201 whenever the address is not one of
  the caller's, an item has no menu_item_id or quantity or a quantity of zero or less, an
  item's menu item is not a row of the requested restaurant, no courier is free, or the
  database refuses a statement (the restaurant does not exist, a quantity does not fit
  INTEGER).
\<close>

theorem failed_order_is_rolled_back:
  assumes "txn s = None"
    and "restaurant_id req = Some rid" and "rid \<noteq> 0"
    and "address_id req = Some aid" and "aid \<noteq> 0"
    and "items req = Some its" and "its \<noteq> []"
    and "payment_method req = Some m" and "m \<in> {''CREDIT_CARD'', ''CASH'', ''WALLET''}"
    and "post_add s user req now = (resp, s')"
  shows "(fst resp \<noteq> 201 \<longrightarrow>
            fst resp = 400 \<and> committed s' = committed s \<and> txn s' = None
            \<and> last (issued s') = Rollback)
       \<and> ((\<not> (\<exists>a \<in> set (user_addresses (committed s)).
                 ua_id a = aid \<and> ua_user_id a = Some (au_id user))
           \<or> (\<exists>it \<in> set its.
                 menu_item_id it = None \<or> menu_item_id it = Some 0 \<or> quantity it = None
                 \<or> the (quantity it) \<le> 0
                 \<or> \<not> (\<exists>mi \<in> set (menu_items (committed s)).
                         Some (mi_id mi) = menu_item_id it \<and> mi_restaurant_id mi = Some rid)
                 \<or> \<not> fits_integer (the (quantity it)))
           \<or> (\<forall>u. \<not> courier_free (committed s) u)
           \<or> rid \<notin> set (map r_id (restaurants (committed s))))
          \<longrightarrow> fst resp \<noteq> 201)"
proof (intro conjI impI)
  have v1: "\<not> (\<not> truthy (restaurant_id req) \<or> \<not> truthy (address_id req) \<or> items req = None
            \<or> the (items req) = [])"
    using assms(2-7) by (simp add: truthy_def)
  have v2: "isPaymentMethod (payment_method req)"
    using assms(8,9) by (auto simp: isPaymentMethod_def PAYMENT_METHODS_def)
  {
    assume "fst resp \<noteq> 201"
    note F = post_add_failure[OF assms(1) v1 v2 assms(10) this]
    from F show "fst resp = 400" by simp
    from F show "committed s' = committed s" by simp
    from F show "txn s' = None" by simp
    from F show "last (issued s') = Rollback" by simp
  }
  assume bad: "\<not> (\<exists>a \<in> set (user_addresses (committed s)).
                 ua_id a = aid \<and> ua_user_id a = Some (au_id user))
           \<or> (\<exists>it \<in> set its.
                 menu_item_id it = None \<or> menu_item_id it = Some 0 \<or> quantity it = None
                 \<or> the (quantity it) \<le> 0
                 \<or> \<not> (\<exists>mi \<in> set (menu_items (committed s)).
                         Some (mi_id mi) = menu_item_id it \<and> mi_restaurant_id mi = Some rid)
                 \<or> \<not> fits_integer (the (quantity it)))
           \<or> (\<forall>u. \<not> courier_free (committed s) u)
           \<or> rid \<notin> set (map r_id (restaurants (committed s)))"
  show "fst resp \<noteq> 201"
  proof
    assume "fst resp = 201"
    then have run: "post_add s user req now = ((201, snd resp), s')"
      using assms(10) by (cases resp) simp
    show False
    proof (rule post_add_success[OF assms(1) run])
      fix rid' aid' its' m' oid tot cid rows caid P
      assume rq: "restaurant_id req = Some rid'" "address_id req = Some aid'" "items req = Some its'"
        and addr: "\<exists>a \<in> set (user_addresses (committed s)). ua_id a = aid' \<and> ua_user_id a = Some (au_id user)"
        and rest: "rid' \<in> set (map r_id (restaurants (committed s)))"
        and its: "\<forall>it \<in> set its'. truthy (menu_item_id it) \<and> truthy (quantity it) \<and> 0 < the (quantity it)
          \<and> fits_integer (the (quantity it))
          \<and> (\<exists>mi \<in> set (menu_items (committed s)). mi_id mi = the (menu_item_id it)
                \<and> mi_restaurant_id mi = Some rid')"
        and free: "courier_free (committed s) cid"
      from rq assms(2,4,6) have eq: "rid' = rid" "aid' = aid" "its' = its" by simp_all
      have ok: "\<And>it. it \<in> set its \<Longrightarrow>
          menu_item_id it \<noteq> None \<and> menu_item_id it \<noteq> Some 0 \<and> quantity it \<noteq> None
          \<and> 0 < the (quantity it) \<and> fits_integer (the (quantity it))
          \<and> (\<exists>mi \<in> set (menu_items (committed s)).
                         Some (mi_id mi) = menu_item_id it \<and> mi_restaurant_id mi = Some rid)"
      proof -
        fix it assume "it \<in> set its"
        with its eq have i: "truthy (menu_item_id it)" "truthy (quantity it)" "0 < the (quantity it)"
          "fits_integer (the (quantity it))"
          "\<exists>mi \<in> set (menu_items (committed s)). mi_id mi = the (menu_item_id it)
                \<and> mi_restaurant_id mi = Some rid" by auto
        from truthy_Some[OF i(1)] truthy_Some[OF i(2)] i(3,4,5)
        show "menu_item_id it \<noteq> None \<and> menu_item_id it \<noteq> Some 0 \<and> quantity it \<noteq> None
          \<and> 0 < the (quantity it) \<and> fits_integer (the (quantity it))
          \<and> (\<exists>mi \<in> set (menu_items (committed s)).
                         Some (mi_id mi) = menu_item_id it \<and> mi_restaurant_id mi = Some rid)"
          by (metis option.distinct(1) option.inject)
      qed
      from bad addr rest free ok show False unfolding eq
        by (metis not_le)
    qed
  qed
qed

theorem failed_order_is_rolled_back_witness:
  "txn ex_server = None
   \<and> restaurant_id ex_request_cross = Some 3 \<and> address_id ex_request_cross = Some 7
   \<and> payment_method ex_request_cross = Some ''CASH''
   \<and> fst (post_add ex_server ex_customer ex_request_cross 5)
       = (400, ErrorThrown (MenuItemNotFound 13))
   \<and> committed (snd (post_add ex_server ex_customer ex_request_cross 5)) = committed ex_server
   \<and> txn (snd (post_add ex_server ex_customer ex_request_cross 5)) = None
   \<and> last (issued (snd (post_add ex_server ex_customer ex_request_cross 5))) = Rollback"
  using failed_order_is_rolled_back[of ex_server ex_request_cross 3 7
          "[\<lparr>menu_item_id = Some 11, quantity = Some 2\<rparr>,
            \<lparr>menu_item_id = Some 13, quantity = Some 1\<rparr>]" "''CASH''" ex_customer 5
          "fst (post_add ex_server ex_customer ex_request_cross 5)"
          "snd (post_add ex_server ex_customer ex_request_cross 5)"]
  by (simp add: ex_cross_run) (simp add: ex_server_def ex_request_cross_def ex_request_def)

section \<open>Courier choice\<close>



section \<open>What a successful placement commits\<close>



section \<open>Validation of POST /orders/add\<close>

text \<open>
  C8. A create-order request whose restaurant_id, address_id or items is missing, whose
  items list is empty, or whose payment_method is not CREDIT_CARD, CASH or WALLET is
  answered 400 with a validation error, and the server state is exactly what it was: no
  statement at all, so no BEGIN, has been sent.
\<close>

theorem post_add_validation_error:
  assumes "restaurant_id req = None \<or> address_id req = None \<or> items req = None
             \<or> items req = Some []
             \<or> payment_method req \<notin> {Some ''CREDIT_CARD'', Some ''CASH'', Some ''WALLET''}"
  shows "fst (post_add s user req now) \<in>
           {(400, Error ''Missing order details''),
            (400, ErrorAllowed ''Invalid payment_method'' [''CREDIT_CARD'', ''CASH'', ''WALLET''])}
         \<and> snd (post_add s user req now) = s"
proof (cases "\<not> truthy (restaurant_id req) \<or> \<not> truthy (address_id req) \<or> items req = None
      \<or> the (items req) = []")
  case True
  from post_add_missing[OF True] show ?thesis by simp
next
  case False
  with assms have "\<not> isPaymentMethod (payment_method req)"
    by (auto simp: isPaymentMethod_def PAYMENT_METHODS_def truthy_def split: option.splits)
  from post_add_method[OF False this] show ?thesis by (simp add: PAYMENT_METHODS_def)
qed

theorem post_add_validation_error_witness:
  "payment_method (ex_request\<lparr>payment_method := Some ''BITCOIN''\<rparr>)
      \<notin> {Some ''CREDIT_CARD'', Some ''CASH'', Some ''WALLET''}
   \<and> fst (post_add ex_server ex_customer (ex_request\<lparr>payment_method := Some ''BITCOIN''\<rparr>) 5)
      = (400, ErrorAllowed ''Invalid payment_method'' [''CREDIT_CARD'', ''CASH'', ''WALLET''])
   \<and> snd (post_add ex_server ex_customer (ex_request\<lparr>payment_method := Some ''BITCOIN''\<rparr>) 5)
      = ex_server"
  using post_add_validation_error
    [of "ex_request\<lparr>payment_method := Some ''BITCOIN''\<rparr>" ex_server ex_customer 5]
  by (simp add: ex_request_def post_add_def truthy_def isPaymentMethod_def PAYMENT_METHODS_def)

section \<open>The address check\<close>

lemma post_add_no_address:
  assumes "\<not> (\<not> truthy (restaurant_id req) \<or> \<not> truthy (address_id req) \<or> items req = None
            \<or> the (items req) = [])"
    and "isPaymentMethod (payment_method req)"
    and "\<forall>a \<in> set (user_addresses (cur (sql_begin s))).
           \<not> (ua_id a = the (address_id req) \<and> ua_user_id a = Some (au_id user))"
  shows "fst (post_add s user req now)
           = (400, Error ''Invalid address_id (not found or not yours)'')"
proof -
  have "filter (\<lambda>a. ua_id a = the (address_id req) \<and> ua_user_id a = Some (au_id user))
          (user_addresses (cur (sql_begin s))) = []"
    using assms(3) by (simp add: filter_empty_conv)
  then have "fst (select_address (the (address_id req)) (au_id user) (sql_begin s)) = []"
    by (simp add: select_address_def rows_filter)
  then obtain s1 where "select_address (the (address_id req)) (au_id user) (sql_begin s) = ([], s1)"
    by (cases "select_address (the (address_id req)) (au_id user) (sql_begin s)") simp
  then show ?thesis
    unfolding post_add_valid[OF assms(1,2)] by (simp add: order_txn_def)
qed

text \<open>
  C9. Take one request that passes validation and two databases: in the first no
  user_addresses row has the requested id, in the second such a row exists and belongs
  to another user. Both runs answer 400 with the same body, "Invalid address_id (not
  found or not yours)".
\<close>

theorem invalid_address_is_indistinguishable:
  assumes "txn s1 = None" and "txn s2 = None"
    and "restaurant_id req = Some rid" and "rid \<noteq> 0"
    and "address_id req = Some aid" and "aid \<noteq> 0"
    and "items req = Some its" and "its \<noteq> []"
    and "payment_method req = Some m" and "m \<in> {''CREDIT_CARD'', ''CASH'', ''WALLET''}"
    and "\<forall>a \<in> set (user_addresses (committed s1)). ua_id a \<noteq> aid"
    and "\<exists>a \<in> set (user_addresses (committed s2)). ua_id a = aid"
    and "\<forall>a \<in> set (user_addresses (committed s2)).
           ua_id a = aid \<longrightarrow> ua_user_id a \<noteq> Some (au_id user)"
  shows "fst (post_add s1 user req now)
           = (400, Error ''Invalid address_id (not found or not yours)'')
       \<and> fst (post_add s2 user req now) = fst (post_add s1 user req now)"
proof -
  have v1: "\<not> (\<not> truthy (restaurant_id req) \<or> \<not> truthy (address_id req) \<or> items req = None
            \<or> the (items req) = [])"
    using assms(3-8) by (simp add: truthy_def)
  have v2: "isPaymentMethod (payment_method req)"
    using assms(9,10) by (auto simp: isPaymentMethod_def PAYMENT_METHODS_def)
  from begin_props[OF assms(1)] begin_props[OF assms(2)]
  have c: "cur (sql_begin s1) = committed s1" "cur (sql_begin s2) = committed s2" by simp_all
  have 1: "\<forall>a \<in> set (user_addresses (cur (sql_begin s1))).
           \<not> (ua_id a = the (address_id req) \<and> ua_user_id a = Some (au_id user))"
    using assms(11) unfolding c assms(5) by simp
  have 2: "\<forall>a \<in> set (user_addresses (cur (sql_begin s2))).
           \<not> (ua_id a = the (address_id req) \<and> ua_user_id a = Some (au_id user))"
    using assms(13) unfolding c assms(5) by simp
  from post_add_no_address[OF v1 v2 1] post_add_no_address[OF v1 v2 2]
  show ?thesis by simp
qed

theorem invalid_address_is_indistinguishable_witness:
  "txn ex_server = None
   \<and> address_id (ex_request\<lparr>address_id := Some 8\<rparr>) = Some 8
   \<and> map ua_id (user_addresses (committed
        (ex_server\<lparr>committed := ex_tables\<lparr>user_addresses := [\<lparr>ua_id = 7, ua_user_id = Some 1\<rparr>]\<rparr>\<rparr>)))
       = [7]
   \<and> map (\<lambda>a. (ua_id a, ua_user_id a)) (user_addresses (committed ex_server))
       = [(7, Some 1), (8, Some 2)]
   \<and> au_id ex_customer = 1
   \<and> fst (post_add
        (ex_server\<lparr>committed := ex_tables\<lparr>user_addresses := [\<lparr>ua_id = 7, ua_user_id = Some 1\<rparr>]\<rparr>\<rparr>)
        ex_customer (ex_request\<lparr>address_id := Some 8\<rparr>) 5)
       = (400, Error ''Invalid address_id (not found or not yours)'')
   \<and> fst (post_add ex_server ex_customer (ex_request\<lparr>address_id := Some 8\<rparr>) 5)
       = (400, Error ''Invalid address_id (not found or not yours)'')"
  using invalid_address_is_indistinguishable[of
          "ex_server\<lparr>committed := ex_tables\<lparr>user_addresses := [\<lparr>ua_id = 7, ua_user_id = Some 1\<rparr>]\<rparr>\<rparr>"
          ex_server "ex_request\<lparr>address_id := Some 8\<rparr>" 3 8
          "[\<lparr>menu_item_id = Some 11, quantity = Some 2\<rparr>,
            \<lparr>menu_item_id = Some 12, quantity = Some 1\<rparr>]" "''CASH''" ex_customer 5]
  by (simp add: ex_server_def ex_tables_def ex_request_def ex_customer_def)


section \<open>Cancelling an order\<close>

lemma distinct_key_filter:
  "distinct (map f xs) \<Longrightarrow> row \<in> set xs \<Longrightarrow>
     filter (\<lambda>r. f r = f row \<and> Q r) xs = (if Q row then [row] else [])"
proof (induction xs)
  case Nil
  then show ?case by simp
next
  case (Cons x xs)
  show ?case
  proof (cases "x = row")
    case True
    from Cons.prems(1) True have "f row \<notin> f ` set xs" by simp
    then have "\<forall>r \<in> set xs. f r \<noteq> f row" by (metis imageI)
    then have "filter (\<lambda>r. f r = f row \<and> Q r) xs = []" by (simp add: filter_empty_conv)
    with True show ?thesis by simp
  next
    case False
    with Cons.prems have in_xs: "row \<in> set xs" and d: "distinct (map f xs)" by auto
    from Cons.prems(1) have "f x \<notin> f ` set xs" by simp
    with in_xs have "f x \<noteq> f row" by (metis imageI)
    with Cons.IH[OF d in_xs] show ?thesis by simp
  qed
qed

lemma put_cancel_not_found:
  assumes "txn s = None"
    and "\<forall>row \<in> set (orders (committed s)). \<not> (o_id row = oid \<and> o_customer_id row = Some (au_id user))"
  shows "fst (put_cancel s user oid now) = (404, Error ''Order not found'')
         \<and> committed (snd (put_cancel s user oid now)) = committed s"
proof -
  have "filter (\<lambda>row. o_id row = oid \<and> o_customer_id row = Some (au_id user)) (orders (cur s)) = []"
    using assms(2) unfolding cur_None[OF assms(1)] by (simp add: filter_empty_conv)
  then have "select_own_order oid (au_id user) s = ([], sent (Select ''orders'') s)"
    by (simp add: select_own_order_def rows_filter)
  then show ?thesis by (simp add: put_cancel_def)
qed

lemma put_cancel_found:
  assumes "txn s = None" and "distinct (map o_id (orders (committed s)))"
    and "row \<in> set (orders (committed s))" and "o_customer_id row = Some (au_id user)"
  shows "put_cancel s user (o_id row) now =
     (if o_status row = ''DELIVERED''
      then ((400, Error ''Cannot cancel delivered order''), sent (Select ''orders'') s)
      else ((200, OrderRow (row\<lparr>o_status := ''CANCELLED'', o_updated_at := now\<rparr>)),
            put ((committed s)\<lparr>orders := map (\<lambda>r. if o_id r = o_id row
                    then r\<lparr>o_status := ''CANCELLED'', o_updated_at := now\<rparr> else r)
                  (orders (committed s))\<rparr>)
              (sent (Update ''orders'') (sent (Select ''orders'') s))))"
proof -
  let ?hit = "\<lambda>r. o_id r = o_id row \<and> o_customer_id r = Some (au_id user)"
  have f: "filter ?hit (orders (committed s)) = [row]"
    using distinct_key_filter[OF assms(2,3), of "\<lambda>r. o_customer_id r = Some (au_id user)"] assms(4)
    by simp
  have sel: "select_own_order (o_id row) (au_id user) s
               = ([(o_id row, o_status row)], sent (Select ''orders'') s)"
    by (simp add: select_own_order_def rows_filter cur_None[OF assms(1)] f)
  have same: "\<And>r. r \<in> set (orders (committed s)) \<Longrightarrow> ?hit r = (o_id r = o_id row)"
  proof -
    fix r assume r: "r \<in> set (orders (committed s))"
    show "?hit r = (o_id r = o_id row)"
    proof (cases "o_id r = o_id row")
      case True
      from distinct_key_filter[OF assms(2) r, of "\<lambda>_. True"] True
      have "filter (\<lambda>x. o_id x = o_id row) (orders (committed s)) = [r]" by simp
      moreover from distinct_key_filter[OF assms(2,3), of "\<lambda>_. True"]
      have "filter (\<lambda>x. o_id x = o_id row) (orders (committed s)) = [row]" by simp
      ultimately have "r = row" by simp
      with assms(4) True show ?thesis by simp
    next
      case False
      then show ?thesis by simp
    qed
  qed
  have m: "map (\<lambda>r. if ?hit r then r\<lparr>o_status := ''CANCELLED'', o_updated_at := now\<rparr> else r)
             (orders (committed s))
         = map (\<lambda>r. if o_id r = o_id row
                    then r\<lparr>o_status := ''CANCELLED'', o_updated_at := now\<rparr> else r)
             (orders (committed s))"
    by (rule map_cong[OF refl]) (simp add: same)
  have upd: "update_order_cancelled (o_id row) (au_id user) now (sent (Select ''orders'') s)
      = ([row\<lparr>o_status := ''CANCELLED'', o_updated_at := now\<rparr>],
         put ((committed s)\<lparr>orders := map (\<lambda>r. if o_id r = o_id row
                    then r\<lparr>o_status := ''CANCELLED'', o_updated_at := now\<rparr> else r)
                  (orders (committed s))\<rparr>)
              (sent (Update ''orders'') (sent (Select ''orders'') s)))"
    unfolding update_order_cancelled_def Let_def cur_sent cur_None[OF assms(1)] f m by simp
  show ?thesis
    unfolding put_cancel_def sel by (simp add: upd)
qed


text \<open>
  C10. With order ids unique (the primary key), PUT /orders/:id/cancel answers 200 exactly
  when an order with that id exists, is the caller's, and is not DELIVERED. It then sets
  that order's status to CANCELLED and its updated_at to the current time and changes
  nothing else; any other answer leaves the committed tables as they were. An order
  that is already CANCELLED is cancelled again with 200; a DELIVERED one is answered 400
  "Cannot cancel delivered order" and is left unchanged.
\<close>

theorem cancel_order:
  assumes "txn s = None" and "distinct (map o_id (orders (committed s)))"
    and "put_cancel s user orderId now = (resp, s')"
  shows "(fst resp = 200 \<longleftrightarrow>
            (\<exists>row \<in> set (orders (committed s)). o_id row = orderId
               \<and> o_customer_id row = Some (au_id user) \<and> o_status row \<noteq> ''DELIVERED''))
       \<and> (fst resp = 200 \<longrightarrow>
            committed s' = (committed s)\<lparr>orders := map (\<lambda>r. if o_id r = orderId
                    then r\<lparr>o_status := ''CANCELLED'', o_updated_at := now\<rparr> else r)
                  (orders (committed s))\<rparr>)
       \<and> (fst resp \<noteq> 200 \<longrightarrow> committed s' = committed s)
       \<and> ((\<exists>row \<in> set (orders (committed s)). o_id row = orderId
               \<and> o_customer_id row = Some (au_id user) \<and> o_status row = ''CANCELLED'')
            \<longrightarrow> fst resp = 200)
       \<and> ((\<exists>row \<in> set (orders (committed s)). o_id row = orderId
               \<and> o_customer_id row = Some (au_id user) \<and> o_status row = ''DELIVERED'')
            \<longrightarrow> resp = (400, Error ''Cannot cancel delivered order'')
                \<and> committed s' = committed s)"
proof (cases "\<exists>row \<in> set (orders (committed s)). o_id row = orderId
               \<and> o_customer_id row = Some (au_id user)")
  case False
  then have none: "\<forall>row \<in> set (orders (committed s)).
      \<not> (o_id row = orderId \<and> o_customer_id row = Some (au_id user))" by simp
  from put_cancel_not_found[OF assms(1) none, of now] assms(3)
  have "resp = (404, Error ''Order not found'')" "committed s' = committed s" by simp_all
  with False show ?thesis by auto
next
  case True
  then obtain row where row: "row \<in> set (orders (committed s))" "o_id row = orderId"
    "o_customer_id row = Some (au_id user)" by blast
  have uniq: "\<And>r. r \<in> set (orders (committed s)) \<Longrightarrow> o_id r = orderId \<Longrightarrow> r = row"
  proof -
    fix r assume r: "r \<in> set (orders (committed s))" "o_id r = orderId"
    from distinct_key_filter[OF assms(2) r(1), of "\<lambda>_. True"] r(2) row(2)
    have "filter (\<lambda>x. o_id x = o_id row) (orders (committed s)) = [r]" by simp
    moreover from distinct_key_filter[OF assms(2) row(1), of "\<lambda>_. True"]
    have "filter (\<lambda>x. o_id x = o_id row) (orders (committed s)) = [row]" by simp
    ultimately show "r = row" by simp
  qed
  note run = put_cancel_found[OF assms(1,2) row(1,3), of now, unfolded row(2)]
  show ?thesis
  proof (cases "o_status row = ''DELIVERED''")
    case True
    from run True assms(3)
    have r: "resp = (400, Error ''Cannot cancel delivered order'')" "s' = sent (Select ''orders'') s"
      by simp_all
    have no: "\<not> (\<exists>row \<in> set (orders (committed s)). o_id row = orderId
               \<and> o_customer_id row = Some (au_id user) \<and> o_status row \<noteq> ''DELIVERED'')"
      using uniq True by blast
    have no2: "\<not> (\<exists>row \<in> set (orders (committed s)). o_id row = orderId
               \<and> o_customer_id row = Some (au_id user) \<and> o_status row = ''CANCELLED'')"
      using uniq True by fastforce
    from r no no2 show ?thesis by simp
  next
    case False
    from run False assms(3)
    have r: "fst resp = 200"
      and s': "s' = put ((committed s)\<lparr>orders := map (\<lambda>r. if o_id r = orderId
                    then r\<lparr>o_status := ''CANCELLED'', o_updated_at := now\<rparr> else r)
                  (orders (committed s))\<rparr>)
              (sent (Update ''orders'') (sent (Select ''orders'') s))"
      by auto
    have c: "committed s' = (committed s)\<lparr>orders := map (\<lambda>r. if o_id r = orderId
                    then r\<lparr>o_status := ''CANCELLED'', o_updated_at := now\<rparr> else r)
                  (orders (committed s))\<rparr>"
      unfolding s' using assms(1) by (simp add: committed_put_auto)
    have yes: "\<exists>row \<in> set (orders (committed s)). o_id row = orderId
               \<and> o_customer_id row = Some (au_id user) \<and> o_status row \<noteq> ''DELIVERED''"
      using row False by blast
    have no: "\<not> (\<exists>row \<in> set (orders (committed s)). o_id row = orderId
               \<and> o_customer_id row = Some (au_id user) \<and> o_status row = ''DELIVERED'')"
      using uniq False by blast
    from r c yes no show ?thesis by (simp (no_asm_simp))
  qed
qed

theorem cancel_order_witness:
  "txn ex_server_cancelled = None
   \<and> map (\<lambda>r. (o_id r, o_customer_id r, o_status r)) (orders (committed ex_server_cancelled))
       = [(1, Some 1, ''CANCELLED'')]
   \<and> fst (fst (put_cancel ex_server_cancelled ex_customer 1 8)) = 200
   \<and> map (\<lambda>r. (o_id r, o_status r, o_updated_at r))
         (orders (committed (snd (put_cancel ex_server_cancelled ex_customer 1 8))))
       = [(1, ''CANCELLED'', 8)]
   \<and> map (\<lambda>r. (o_id r, o_customer_id r, o_status r)) (orders (committed ex_server_after))
       = [(1, Some 1, ''DELIVERED'')]
   \<and> fst (put_cancel ex_server_after ex_customer 1 8)
       = (400, Error ''Cannot cancel delivered order'')
   \<and> committed (snd (put_cancel ex_server_after ex_customer 1 8)) = committed ex_server_after"
  using cancel_order[of ex_server_cancelled ex_customer 1 8
          "fst (put_cancel ex_server_cancelled ex_customer 1 8)"
          "snd (put_cancel ex_server_cancelled ex_customer 1 8)"]
        cancel_order[of ex_server_after ex_customer 1 8
          "fst (put_cancel ex_server_after ex_customer 1 8)"
          "snd (put_cancel ex_server_after ex_customer 1 8)"]
  by (simp add: ex_server_cancelled_def ex_server_after_def ex_tables_after_def
        ex_customer_def)

section \<open>Statements outside a transaction\<close>

lemma updateFields_status [simp]: "ca_status (updateFields st now ca) = st"
  by (simp add: updateFields_def)

lemma updateFields_keys [simp]:
  "ca_id (updateFields st now ca) = ca_id ca"
  "ca_courier_id (updateFields st now ca) = ca_courier_id ca"
  "ca_order_id (updateFields st now ca) = ca_order_id ca"
  by (simp_all add: updateFields_def)

lemma update_assignment_auto:
  assumes "txn s = None"
  shows "update_assignment st aid owner now s =
     (map (updateFields st now)
        (filter (\<lambda>ca. ca_id ca = aid \<and> (case owner of None \<Rightarrow> True | Some u \<Rightarrow> ca_courier_id ca = Some u))
           (courier_assignments (committed s))),
      s\<lparr>committed := (committed s)\<lparr>courier_assignments :=
             map (\<lambda>ca. if ca_id ca = aid \<and> (case owner of None \<Rightarrow> True | Some u \<Rightarrow> ca_courier_id ca = Some u)
                        then updateFields st now ca else ca)
               (courier_assignments (committed s))\<rparr>,
         issued := issued s @ [Update ''courier_assignments'']\<rparr>)"
  using assms by (simp add: update_assignment_def Let_def cur_def put_def sent_def)

lemma update_order_status_auto:
  assumes "txn s = None"
  shows "update_order_status st oid s =
     s\<lparr>committed := (committed s)\<lparr>orders :=
            map (\<lambda>row. if Some (o_id row) = oid then row\<lparr>o_status := st\<rparr> else row)
              (orders (committed s))\<rparr>,
       issued := issued s @ [Update ''orders'']\<rparr>"
  using assms by (simp add: update_order_status_def Let_def cur_def put_def sent_def)

text \<open>The courier_id condition of the statement that the handler picks.\<close>

lemma assignment_owner_hit:
  "(case (if ''ADMIN'' \<in> set (au_roles user) then None else Some (au_id user)) of
      None \<Rightarrow> True | Some u \<Rightarrow> ca_courier_id ca = Some u)
   = (''ADMIN'' \<in> set (au_roles user) \<or> ca_courier_id ca = Some (au_id user))"
  by simp

lemma put_assignment_update_status_run:
  assumes "txn s = None" and "st \<in> set COURIER_ASSIGNMENT_STATUSES"
  shows "put_assignment_update_status s user aid (Some st) now =
     (case update_assignment st aid
             (if ''ADMIN'' \<in> set (au_roles user) then None else Some (au_id user)) now s of
        ([], s1) \<Rightarrow> ((404, Error ''Assignment not found or not yours''), s1)
      | (row # _, s1) \<Rightarrow>
          if st = ''DELIVERED''
          then ((200, AssignmentRow row), update_order_status ''DELIVERED'' (ca_order_id row) s1)
          else if st = ''PICKED_UP''
          then ((200, AssignmentRow row), update_order_status ''PICKED_UP'' (ca_order_id row) s1)
          else ((200, AssignmentRow row), s1))"
  using assms(2)
  by (simp add: put_assignment_update_status_def isCourierAssignmentStatus_def
        split: prod.splits list.splits)


section \<open>Courier assignment status\<close>

text \<open>
  C5 (as the code has it). PUT /courier/assignments/:id/update-status accepts each of
  ASSIGNED, PICKED_UP, DELIVERED and writes it into the status of every assignment row
  with that id (for a caller who is not an administrator: that id and the caller as
  courier), whatever the status of the row was; all other rows keep theirs. The answer is
  200 exactly when such a row exists.
\<close>

theorem assignment_status_is_overwritten:
  assumes "txn s = None" and "st \<in> {''ASSIGNED'', ''PICKED_UP'', ''DELIVERED''}"
    and "put_assignment_update_status s user aid (Some st) now = (resp, s')"
  shows "map ca_status (courier_assignments (committed s'))
           = map (\<lambda>ca. if ca_id ca = aid
                           \<and> (''ADMIN'' \<in> set (au_roles user) \<or> ca_courier_id ca = Some (au_id user))
                        then st else ca_status ca)
               (courier_assignments (committed s))
       \<and> (fst resp = 200 \<longleftrightarrow>
            (\<exists>ca \<in> set (courier_assignments (committed s)). ca_id ca = aid
               \<and> (''ADMIN'' \<in> set (au_roles user) \<or> ca_courier_id ca = Some (au_id user))))"
proof -
  define owner where "owner = (if ''ADMIN'' \<in> set (au_roles user) then None else Some (au_id user))"
  define hit where "hit = (\<lambda>ca::assignment_row. ca_id ca = aid
      \<and> (''ADMIN'' \<in> set (au_roles user) \<or> ca_courier_id ca = Some (au_id user)))"
  define s1 where "s1 = s\<lparr>committed := (committed s)\<lparr>courier_assignments :=
             map (\<lambda>ca. if hit ca then updateFields st now ca else ca)
               (courier_assignments (committed s))\<rparr>,
         issued := issued s @ [Update ''courier_assignments'']\<rparr>"
  have st: "st \<in> set COURIER_ASSIGNMENT_STATUSES"
    using assms(2) by (auto simp: COURIER_ASSIGNMENT_STATUSES_def)
  have ua: "update_assignment st aid owner now s
      = (map (updateFields st now) (filter hit (courier_assignments (committed s))), s1)"
    unfolding update_assignment_auto[OF assms(1)] owner_def assignment_owner_hit hit_def s1_def ..
  have t1: "txn s1 = None" using assms(1) by (simp add: s1_def)
  have cas1: "courier_assignments (committed s1)
      = map (\<lambda>ca. if hit ca then updateFields st now ca else ca) (courier_assignments (committed s))"
    by (simp add: s1_def)
  have keep: "\<And>x oid. courier_assignments (committed (update_order_status x oid s1))
      = courier_assignments (committed s1)"
    unfolding update_order_status_auto[OF t1] by simp
  note run = put_assignment_update_status_run[OF assms(1) st, of user aid now,
      folded owner_def, unfolded ua]
  have cas': "courier_assignments (committed s') = courier_assignments (committed s1)"
    using assms(3) unfolding run by (auto simp: keep split: list.splits if_splits)
  have A: "map ca_status (courier_assignments (committed s'))
           = map (\<lambda>ca. if hit ca then st else ca_status ca) (courier_assignments (committed s))"
    unfolding cas' cas1 by simp
  have B: "fst resp = 200 \<longleftrightarrow> (\<exists>ca \<in> set (courier_assignments (committed s)). hit ca)"
  proof (cases "filter hit (courier_assignments (committed s))")
    case Nil
    then have "\<not> (\<exists>ca \<in> set (courier_assignments (committed s)). hit ca)"
      by (simp add: filter_empty_conv)
    moreover from assms(3) Nil have "fst resp = 404" unfolding run by auto
    ultimately show ?thesis by simp
  next
    case (Cons x xs)
    then have "\<exists>ca \<in> set (courier_assignments (committed s)). hit ca"
      by (metis filter_empty_conv list.distinct(1))
    moreover from assms(3) Cons have "fst resp = 200" unfolding run by (auto split: if_splits)
    ultimately show ?thesis by simp
  qed
  from A B show ?thesis unfolding hit_def by simp
qed


theorem assignment_status_is_overwritten_witness:
  "txn ex_server_after = None
   \<and> map (\<lambda>ca. (ca_id ca, ca_courier_id ca, ca_status ca))
         (courier_assignments (committed ex_server_after)) = [(1, Some 9, ''DELIVERED'')]
   \<and> au_id ex_courier = 9
   \<and> map ca_status (courier_assignments (committed
        (snd (put_assignment_update_status ex_server_after ex_courier 1 (Some ''PICKED_UP'') 6))))
       = [''PICKED_UP'']
   \<and> fst (fst (put_assignment_update_status ex_server_after ex_courier 1 (Some ''PICKED_UP'') 6))
       = 200"
  using assignment_status_is_overwritten[of ex_server_after "''PICKED_UP''" ex_courier 1 6
          "fst (put_assignment_update_status ex_server_after ex_courier 1 (Some ''PICKED_UP'') 6)"
          "snd (put_assignment_update_status ex_server_after ex_courier 1 (Some ''PICKED_UP'') 6)"]
  by (simp add: ex_server_after_def ex_tables_after_def ex_courier_def)

text \<open>C5, as the specification states it, fails: the courier of a DELIVERED
  assignment sends ASSIGNED, is answered 200, and the assignment is ASSIGNED again.\<close>

theorem delivered_assignment_returns_to_assigned:
  "map ca_status (courier_assignments (committed ex_server_after)) = [''DELIVERED'']
   \<and> fst (fst (put_assignment_update_status ex_server_after ex_courier 1 (Some ''ASSIGNED'') 6))
       = 200
   \<and> map ca_status (courier_assignments (committed
        (snd (put_assignment_update_status ex_server_after ex_courier 1 (Some ''ASSIGNED'') 6))))
       = [''ASSIGNED'']"
  by code_simp

text \<open>
  C6 (as the code has it). When PUT /courier/assignments/:id/update-status with PICKED_UP
  or DELIVERED is answered 200, the returned assignment row is in the table with the new
  status, with picked_at, respectively delivered_at, set to the current time, and the
  status of its parent order is the same status. The handler sends two UPDATE statements
  and no BEGIN: the first is committed by itself, and the committed tables after it hold
  the updated assignment next to the orders table as it was.
\<close>

theorem assignment_update_stamps_and_mirrors:
  assumes "txn s = None" and "st \<in> {''PICKED_UP'', ''DELIVERED''}"
    and "put_assignment_update_status s user aid (Some st) now = ((200, AssignmentRow row), s')"
  shows "ca_status row = st \<and> row \<in> set (courier_assignments (committed s'))
       \<and> (st = ''PICKED_UP'' \<longrightarrow> ca_picked_at row = Some now)
       \<and> (st = ''DELIVERED'' \<longrightarrow> ca_delivered_at row = Some now)
       \<and> orders (committed s')
           = map (\<lambda>r. if Some (o_id r) = ca_order_id row then r\<lparr>o_status := st\<rparr> else r)
               (orders (committed s))
       \<and> issued s' = issued s @ [Update ''courier_assignments'', Update ''orders'']
       \<and> txn s' = None
       \<and> (\<exists>rows s1. update_assignment st aid
              (if ''ADMIN'' \<in> set (au_roles user) then None else Some (au_id user)) now s
                = (rows, s1)
            \<and> txn s1 = None
            \<and> courier_assignments (committed s1) = courier_assignments (committed s')
            \<and> orders (committed s1) = orders (committed s))"
proof -
  define owner where "owner = (if ''ADMIN'' \<in> set (au_roles user) then None else Some (au_id user))"
  define hit where "hit = (\<lambda>ca::assignment_row. ca_id ca = aid
      \<and> (''ADMIN'' \<in> set (au_roles user) \<or> ca_courier_id ca = Some (au_id user)))"
  define s1 where "s1 = s\<lparr>committed := (committed s)\<lparr>courier_assignments :=
             map (\<lambda>ca. if hit ca then updateFields st now ca else ca)
               (courier_assignments (committed s))\<rparr>,
         issued := issued s @ [Update ''courier_assignments'']\<rparr>"
  have st: "st \<in> set COURIER_ASSIGNMENT_STATUSES"
    using assms(2) by (auto simp: COURIER_ASSIGNMENT_STATUSES_def)
  have ua: "update_assignment st aid owner now s
      = (map (updateFields st now) (filter hit (courier_assignments (committed s))), s1)"
    unfolding update_assignment_auto[OF assms(1)] owner_def assignment_owner_hit hit_def s1_def ..
  have t1: "txn s1 = None" using assms(1) by (simp add: s1_def)
  note run = put_assignment_update_status_run[OF assms(1) st, of user aid now,
      folded owner_def, unfolded ua]
  from assms(3) obtain x xs where f: "filter hit (courier_assignments (committed s)) = x # xs"
    unfolding run by (cases "filter hit (courier_assignments (committed s))") auto
  from assms(2,3) have row: "row = updateFields st now x"
    and s': "s' = update_order_status st (ca_order_id row) s1"
    unfolding run f by (auto split: if_splits)
  have "x \<in> set (filter hit (courier_assignments (committed s)))" unfolding f by simp
  then have x: "x \<in> set (courier_assignments (committed s))" "hit x" by simp_all
  have 1: "ca_status row = st" unfolding row by simp
  have 8: "courier_assignments (committed s1) = courier_assignments (committed s')"
    unfolding s' update_order_status_auto[OF t1] by simp
  have "updateFields st now x \<in> set (courier_assignments (committed s1))"
    using x by (auto simp: s1_def image_iff intro!: bexI[of _ x])
  then have 2: "row \<in> set (courier_assignments (committed s'))"
    unfolding 8 row .
  have 3: "st = ''PICKED_UP'' \<longrightarrow> ca_picked_at row = Some now"
    unfolding row by (simp add: updateFields_def)
  have 4: "st = ''DELIVERED'' \<longrightarrow> ca_delivered_at row = Some now"
    unfolding row by (simp add: updateFields_def)
  have 5: "orders (committed s')
           = map (\<lambda>r. if Some (o_id r) = ca_order_id row then r\<lparr>o_status := st\<rparr> else r)
               (orders (committed s))"
    unfolding s' update_order_status_auto[OF t1] by (simp add: s1_def)
  have 6: "issued s' = issued s @ [Update ''courier_assignments'', Update ''orders'']"
    unfolding s' update_order_status_auto[OF t1] by (simp add: s1_def)
  have 7: "txn s' = None"
    unfolding s' update_order_status_auto[OF t1] using t1 by simp
  have 9: "orders (committed s1) = orders (committed s)" by (simp add: s1_def)
  from ua t1 8 9 have 10: "\<exists>rows s1. update_assignment st aid owner now s = (rows, s1)
            \<and> txn s1 = None
            \<and> courier_assignments (committed s1) = courier_assignments (committed s')
            \<and> orders (committed s1) = orders (committed s)" by blast
  from 1 2 3 4 5 6 7 10 show ?thesis unfolding owner_def by blast
qed

theorem assignment_update_stamps_and_mirrors_witness:
  "txn ex_server_assigned = None
   \<and> put_assignment_update_status ex_server_assigned ex_courier 1 (Some ''DELIVERED'') 6
       = ((200, AssignmentRow \<lparr>ca_id = 1, ca_order_id = Some 1, ca_courier_id = Some 9,
                                 ca_assigned_at = 5, ca_picked_at = None,
                                 ca_delivered_at = Some 6, ca_status = ''DELIVERED''\<rparr>),
          snd (put_assignment_update_status ex_server_assigned ex_courier 1 (Some ''DELIVERED'') 6))
   \<and> map o_status (orders (committed ex_server_assigned)) = [''READY'']
   \<and> map o_status (orders (committed
        (snd (put_assignment_update_status ex_server_assigned ex_courier 1 (Some ''DELIVERED'') 6))))
       = [''DELIVERED'']
   \<and> issued (snd (put_assignment_update_status ex_server_assigned ex_courier 1 (Some ''DELIVERED'') 6))
       = [Update ''courier_assignments'', Update ''orders'']"
proof -
  have run: "put_assignment_update_status ex_server_assigned ex_courier 1 (Some ''DELIVERED'') 6
       = ((200, AssignmentRow \<lparr>ca_id = 1, ca_order_id = Some 1, ca_courier_id = Some 9,
                                 ca_assigned_at = 5, ca_picked_at = None,
                                 ca_delivered_at = Some 6, ca_status = ''DELIVERED''\<rparr>),
          snd (put_assignment_update_status ex_server_assigned ex_courier 1 (Some ''DELIVERED'') 6))"
    by code_simp
  have t: "txn ex_server_assigned = None"
    by (simp add: ex_server_assigned_def ex_server_after_def)
  from assignment_update_stamps_and_mirrors[OF t _ run] run t show ?thesis
    by (simp add: ex_server_assigned_def ex_server_after_def ex_tables_after_def)
qed

text \<open>C6, as the specification states it, fails: the handler sends no BEGIN, and
  after its first statement the committed assignment is DELIVERED while its order still
  is READY.\<close>

theorem delivered_update_is_not_one_transaction:
  "issued (snd (put_assignment_update_status ex_server_assigned ex_courier 1 (Some ''DELIVERED'') 6))
       = [Update ''courier_assignments'', Update ''orders'']
   \<and> txn (snd (update_assignment ''DELIVERED'' 1 (Some 9) 6 ex_server_assigned)) = None
   \<and> map ca_status (courier_assignments (committed
        (snd (update_assignment ''DELIVERED'' 1 (Some 9) 6 ex_server_assigned)))) = [''DELIVERED'']
   \<and> map o_status (orders (committed
        (snd (update_assignment ''DELIVERED'' 1 (Some 9) 6 ex_server_assigned)))) = [''READY'']"
  by code_simp


section \<open>Price snapshots\<close>

lemma update_menu_item_auto:
  assumes "txn s = None"
  shows "update_menu_item b mid s = (Inl e, s') \<Longrightarrow> committed s' = committed s \<and> txn s' = None"
    and "update_menu_item b mid s = (Inr rows, s') \<Longrightarrow>
       txn s' = None \<and>
       committed s' = (committed s)\<lparr>menu_items :=
         map (\<lambda>m. if mi_id m = mid
                then m\<lparr>mi_name := coalesce (miu_name b) (mi_name m),
                       mi_description := (case miu_description b of
                                            None \<Rightarrow> mi_description m | Some d \<Rightarrow> Some d),
                       mi_price := coalesce (miu_price b) (mi_price m),
                       mi_is_available := coalesce (miu_is_available b) (mi_is_available m)\<rparr>
                else m) (menu_items (committed s))\<rparr>"
  using assms
  by (auto simp: update_menu_item_def Let_def cur_def put_def sent_def split: if_splits)

lemma put_menu_item_update_frame:
  assumes "txn s = None" and "put_menu_item_update s u mid b = (resp, s')"
  shows "txn s' = None \<and>
     (\<exists>M. committed s' = (committed s)\<lparr>menu_items := M\<rparr>
        \<and> list_all2 (\<lambda>m' m. mi_id m' = mi_id m \<and> (mi_id m \<noteq> mid \<longrightarrow> m' = m))
             M (menu_items (committed s))
        \<and> (fst resp = 200 \<longrightarrow>
             (\<forall>m' \<in> set M. mi_id m' = mid \<longrightarrow> mi_price m' = coalesce (miu_price b) (mi_price m'))))"
proof -
  define upd where "upd = (\<lambda>m::menu_item_row. if mi_id m = mid
                then m\<lparr>mi_name := coalesce (miu_name b) (mi_name m),
                       mi_description := (case miu_description b of
                                            None \<Rightarrow> mi_description m | Some d \<Rightarrow> Some d),
                       mi_price := coalesce (miu_price b) (mi_price m),
                       mi_is_available := coalesce (miu_is_available b) (mi_is_available m)\<rparr>
                else m)"
  define admin where "admin = (''ADMIN'' \<in> set (au_roles u))"
  obtain os s1 where a: "select_item_owner mid s = (os, s1)"
    by (cases "select_item_owner mid s")
  then have s1: "txn s1 = None" "committed s1 = committed s"
    using assms(1) by (auto simp: select_item_owner_def)
  obtain r2 s2 where b: "update_menu_item b mid s1 = (r2, s2)"
    by (cases "update_menu_item b mid s1")
  have run: "(resp, s') =
     (case os of
        [] \<Rightarrow> ((404, Error ''Menu item not found''), s1)
      | (owner_id # _) \<Rightarrow>
          if owner_id \<noteq> Some (au_id u) \<and> \<not> admin
          then ((403, Error ''Forbidden''), s1)
          else
            (case r2 of
               Inl e \<Rightarrow> ((500, Error ''Internal server error''), s2)
             | Inr [] \<Rightarrow> ((200, NoRow), s2)
             | Inr (row # _) \<Rightarrow> ((200, MenuItemRow row), s2)))"
    unfolding assms(2)[symmetric] put_menu_item_update_def a admin_def
    by (simp add: b split: list.splits)
  have same: "txn s' = None \<Longrightarrow> committed s' = committed s \<Longrightarrow> fst resp \<noteq> 200 \<Longrightarrow> ?thesis"
  proof -
    assume h: "txn s' = None" "committed s' = committed s" "fst resp \<noteq> 200"
    have 1: "committed s' = (committed s)\<lparr>menu_items := menu_items (committed s)\<rparr>"
      using h(2) by simp
    have 2: "list_all2 (\<lambda>m' m. mi_id m' = mi_id m \<and> (mi_id m \<noteq> mid \<longrightarrow> m' = m))
             (menu_items (committed s)) (menu_items (committed s))"
      by (simp add: list_all2_same)
    have 3: "fst resp = 200 \<longrightarrow> (\<forall>m' \<in> set (menu_items (committed s)).
         mi_id m' = mid \<longrightarrow> mi_price m' = coalesce (miu_price b) (mi_price m'))"
      using h(3) by simp
    show ?thesis
      by (rule conjI[OF h(1)], rule exI[of _ "menu_items (committed s)"],
          rule conjI[OF 1], rule conjI[OF 2], rule 3)
  qed
  have changed: "r2 = Inr rows \<Longrightarrow> s' = s2 \<Longrightarrow> ?thesis" for rows
  proof -
    assume r2: "r2 = Inr rows" and s2: "s' = s2"
    from update_menu_item_auto(2)[OF s1(1) b[unfolded r2]] s1(2) s2
    have t: "txn s' = None"
      and c: "committed s' = (committed s)\<lparr>menu_items := map upd (menu_items (committed s))\<rparr>"
      by (simp_all add: upd_def)
    have l: "list_all2 (\<lambda>m' m. mi_id m' = mi_id m \<and> (mi_id m \<noteq> mid \<longrightarrow> m' = m))
         (map upd (menu_items (committed s))) (menu_items (committed s))"
      by (simp add: list_all2_map1 list_all2_same upd_def)
    have "\<And>m. mi_id (upd m) = mid \<Longrightarrow> mi_price (upd m) = coalesce (miu_price b) (mi_price (upd m))"
      by (simp add: upd_def coalesce_def split: option.splits if_splits)
    then have p: "fst resp = 200 \<longrightarrow> (\<forall>m' \<in> set (map upd (menu_items (committed s))).
         mi_id m' = mid \<longrightarrow> mi_price m' = coalesce (miu_price b) (mi_price m'))"
      by (simp add: image_iff)
    show ?thesis
      by (rule conjI[OF t], rule exI[of _ "map upd (menu_items (committed s))"],
          rule conjI[OF c], rule conjI[OF l], rule p)
  qed
  show ?thesis
  proof (cases os)
    case Nil
    with run have "resp = (404, Error ''Menu item not found'')" "s' = s1" by simp_all
    with s1 show ?thesis by (intro same) simp_all
  next
    case (Cons o_id' os')
    show ?thesis
    proof (cases "o_id' \<noteq> Some (au_id u) \<and> \<not> admin")
      case True
      with run Cons have "resp = (403, Error ''Forbidden'')" "s' = s1" by simp_all
      with s1 show ?thesis by (intro same) simp_all
    next
      case False
      show ?thesis
      proof (cases r2)
        case (Inl e)
        with run Cons False have r: "resp = (500, Error ''Internal server error'')" "s' = s2"
          by simp_all
        from update_menu_item_auto(1)[OF s1(1) b[unfolded Inl]] s1(2) r
        show ?thesis by (intro same) simp_all
      next
        case (Inr rows)
        with run Cons False have "s' = s2" by (cases rows) simp_all
        from changed[OF Inr this] show ?thesis .
      qed
    qed
  qed
qed

text \<open>
  C7. After POST /orders/add, whatever it answered, a menu-item update leaves the
  committed orders, order_items, courier_assignments and payments tables exactly as
  they were, so the unit prices and the total of a placed order are untouched; of the
  menu_items rows it changes at most those with the given id, and when it answers 200
  with a price in its body, those rows have that price.
\<close>

theorem menu_price_update_keeps_placed_orders:
  assumes "txn s = None" and "post_add s user req now = (resp, s1)"
    and "put_menu_item_update s1 owner mid b = (resp2, s2)"
  shows "orders (committed s2) = orders (committed s1)
       \<and> order_items (committed s2) = order_items (committed s1)
       \<and> courier_assignments (committed s2) = courier_assignments (committed s1)
       \<and> payments (committed s2) = payments (committed s1)
       \<and> list_all2 (\<lambda>m' m. mi_id m' = mi_id m \<and> (mi_id m \<noteq> mid \<longrightarrow> m' = m))
            (menu_items (committed s2)) (menu_items (committed s1))
       \<and> (fst resp2 = 200 \<longrightarrow>
            (\<forall>m' \<in> set (menu_items (committed s2)). \<forall>p. mi_id m' = mid \<and> miu_price b = Some p
                \<longrightarrow> mi_price m' = p))"
proof -
  from post_add_outcome[OF assms(1,2)] have t1: "txn s1 = None" by simp
  from put_menu_item_update_frame[OF t1 assms(3)] obtain M where
    c: "committed s2 = (committed s1)\<lparr>menu_items := M\<rparr>"
    and l: "list_all2 (\<lambda>m' m. mi_id m' = mi_id m \<and> (mi_id m \<noteq> mid \<longrightarrow> m' = m))
             M (menu_items (committed s1))"
    and p: "fst resp2 = 200 \<longrightarrow>
             (\<forall>m' \<in> set M. mi_id m' = mid \<longrightarrow> mi_price m' = coalesce (miu_price b) (mi_price m'))"
    by blast
  have m: "menu_items (committed s2) = M" unfolding c by simp
  have "fst resp2 = 200 \<longrightarrow>
            (\<forall>m' \<in> set M. \<forall>p. mi_id m' = mid \<and> miu_price b = Some p \<longrightarrow> mi_price m' = p)"
    using p by (auto simp: coalesce_def)
  with l show ?thesis unfolding m unfolding c by simp
qed

theorem menu_price_update_keeps_placed_orders_witness:
  "txn ex_server = None
   \<and> post_add ex_server ex_customer ex_request 5
       = ((201, OrderCreated 1 2500 9 ''DELIVERED'' ''COMPLETED''), ex_server_after)
   \<and> fst (fst (put_menu_item_update ex_server_after ex_owner 11 ex_price_update)) = 200
   \<and> map (\<lambda>m. (mi_id m, mi_price m)) (menu_items (committed ex_server_after))
       = [(11, 1000), (12, 500), (13, 700)]
   \<and> map (\<lambda>m. (mi_id m, mi_price m)) (menu_items (committed
        (snd (put_menu_item_update ex_server_after ex_owner 11 ex_price_update))))
       = [(11, 1200), (12, 500), (13, 700)]
   \<and> map oi_unit_price (order_items (committed
        (snd (put_menu_item_update ex_server_after ex_owner 11 ex_price_update)))) = [1000, 500]
   \<and> map o_total_amount (orders (committed
        (snd (put_menu_item_update ex_server_after ex_owner 11 ex_price_update)))) = [2500]"
proof -
  have u: "fst (fst (put_menu_item_update ex_server_after ex_owner 11 ex_price_update)) = 200
    \<and> map (\<lambda>m. (mi_id m, mi_price m)) (menu_items (committed
        (snd (put_menu_item_update ex_server_after ex_owner 11 ex_price_update))))
       = [(11, 1200), (12, 500), (13, 700)]"
    by code_simp
  have t: "txn ex_server = None" by (simp add: ex_server_def)
  from menu_price_update_keeps_placed_orders[OF t ex_run,
      of ex_owner 11 ex_price_update
         "fst (put_menu_item_update ex_server_after ex_owner 11 ex_price_update)"
         "snd (put_menu_item_update ex_server_after ex_owner 11 ex_price_update)"]
    u t ex_run
  show ?thesis
    by (simp add: ex_server_after_def ex_tables_after_def ex_tables_def)
qed

end
